theory Spec2Isabelle
  imports Complex_Main
begin

section \<open>The image adjustment engine of \<^verbatim>\<open>vmm/adjustment.py\<close>\<close>

text \<open>
  The embedding follows \<^verbatim>\<open>src/vmm/adjustment.py\<close> function by function.

  Numbers. A Python \<^verbatim>\<open>float\<close> and an element of a numpy array are modelled as a
  \<^typ>\<open>real\<close>: arithmetic on floating-point values is exact, there is no rounding, no
  overflow and neither \<^verbatim>\<open>inf\<close> nor \<^verbatim>\<open>nan\<close>. The one place where the model rounds is
  the conversion of an integer to a floating-point type (\<^verbatim>\<open>float(volume.max())\<close>,
  \<^verbatim>\<open>volume.astype(np.float32)\<close>, the Python integers \<^verbatim>\<open>info.min\<close> and \<^verbatim>\<open>info.max\<close> as
  bounds of a \<^verbatim>\<open>float32\<close> array): there the integer becomes the nearest number with the
  24 or 53 significand bits of the type. Where the source can leave the real numbers the model
  says so with a value of its own: a Python division by zero is \<open>ZeroDivisionError\<close>, a
  numpy array division by zero is \<open>NonFiniteValue\<close> (numpy itself warns and continues
  with \<^verbatim>\<open>inf\<close>/\<^verbatim>\<open>nan\<close>), and a settings file that spells \<^verbatim>\<open>inf\<close> or \<^verbatim>\<open>nan\<close>
  loads as \<open>LoadedNonFinite\<close>.

  Library code. \<^verbatim>\<open>np.power\<close> and \<^verbatim>\<open>scipy.ndimage.gaussian_filter\<close> are not part of
  the repository; the functions that call them take them as the parameters \<open>pw\<close>
  (base, exponent) and \<open>gf\<close> (shape, data in row-major order).
\<close>

subsection \<open>Arrays\<close>

datatype dtype =
  Int8 | UInt8 | Int16 | UInt16 | Int32 | UInt32 | Int64 | UInt64
  | Float16 | Float32 | Float64

text \<open>\<^verbatim>\<open>np.issubdtype(dt, np.integer)\<close>\<close>

fun issubdtype_integer :: "dtype \<Rightarrow> bool" where
  "issubdtype_integer Float16 = False"
| "issubdtype_integer Float32 = False"
| "issubdtype_integer Float64 = False"
| "issubdtype_integer _ = True"

text \<open>\<^verbatim>\<open>np.iinfo(dt).min\<close> and \<^verbatim>\<open>np.iinfo(dt).max\<close>; numpy raises for a floating dtype,
  and the source asks only for integer ones.\<close>

fun iinfo_min :: "dtype \<Rightarrow> int" where
  "iinfo_min Int8 = - 128"
| "iinfo_min Int16 = - 32768"
| "iinfo_min Int32 = - 2147483648"
| "iinfo_min Int64 = - 9223372036854775808"
| "iinfo_min _ = 0"

fun iinfo_max :: "dtype \<Rightarrow> int" where
  "iinfo_max Int8 = 127"
| "iinfo_max UInt8 = 255"
| "iinfo_max Int16 = 32767"
| "iinfo_max UInt16 = 65535"
| "iinfo_max Int32 = 2147483647"
| "iinfo_max UInt32 = 4294967295"
| "iinfo_max Int64 = 9223372036854775807"
| "iinfo_max UInt64 = 18446744073709551615"
| "iinfo_max _ = 0"

text \<open>An array: its element type, its shape and its elements in row-major order.\<close>

record ndarray =
  dtype :: dtype
  shape :: "nat list"
  elems :: "real list"

text \<open>The exceptions of the source, and \<open>NonFiniteValue\<close>, which is no exception: it
  marks the point where numpy would go on with \<^verbatim>\<open>inf\<close> or \<^verbatim>\<open>nan\<close>.\<close>

datatype py_error = ValueError | ZeroDivisionError | NonFiniteValue | IndexError | OSError

text \<open>An integer as a binary floating-point number with \<open>p\<close> significand bits: the
  nearest such number, a tie going to the even significand. The range of the exponent
  is not modelled; the integers of the source (at most \<open>2 ^ 64\<close>) are well inside the
  range of \<^verbatim>\<open>float32\<close>.\<close>

fun bit_length :: "nat \<Rightarrow> nat" where
  "bit_length n = (if n = 0 then 0 else Suc (bit_length (n div 2)))"

declare bit_length.simps [simp del]

definition round_to_bits :: "nat \<Rightarrow> int \<Rightarrow> int" where
  "round_to_bits p n =
     (let m = nat \<bar>n\<bar>;
          k = (if bit_length m \<le> p then 0 else bit_length m - p);
          q = m div 2 ^ k;
          r = m mod 2 ^ k;
          q' = (if 2 ^ k < 2 * r \<or> (2 * r = 2 ^ k \<and> odd q) then q + 1 else q)
      in sgn n * int (q' * 2 ^ k))"

text \<open>The significand bits of the floating types (the hidden bit included).\<close>

fun significand_bits :: "dtype \<Rightarrow> nat" where
  "significand_bits Float16 = 11"
| "significand_bits Float32 = 24"
| "significand_bits _ = 53"

text \<open>An element \<open>x\<close> of an array of an integer type, converted to the floating type
  \<open>dt\<close>. An array of an integer type holds integers, on which the floor is the
  identity.\<close>

definition int_to_float :: "dtype \<Rightarrow> real \<Rightarrow> real" where
  "int_to_float dt x = of_int (round_to_bits (significand_bits dt) \<lfloor>x\<rfloor>)"

text \<open>A Python integer as an operand of an array of type \<open>dt\<close>: numpy takes it through
  a C double to the type of the array.\<close>

definition python_int_as :: "dtype \<Rightarrow> int \<Rightarrow> real" where
  "python_int_as dt n =
     (if issubdtype_integer dt then of_int n
      else of_int (round_to_bits (significand_bits dt) (round_to_bits 53 n)))"

text \<open>\<^verbatim>\<open>float(a.min())\<close> and \<^verbatim>\<open>float(a.max())\<close>, as every use in the source has them:
  \<^verbatim>\<open>a.min()\<close> raises \<^verbatim>\<open>ValueError\<close> on an array without elements, and \<^verbatim>\<open>float\<close> makes a
  double of the element.\<close>

definition python_float :: "dtype \<Rightarrow> real \<Rightarrow> real" where
  "python_float dt x = (if issubdtype_integer dt then int_to_float Float64 x else x)"

definition np_min :: "ndarray \<Rightarrow> py_error + real" where
  "np_min a =
     (case elems a of
        [] \<Rightarrow> Inl ValueError
      | x # xs \<Rightarrow> Inr (python_float (dtype a) (fold min xs x)))"

definition np_max :: "ndarray \<Rightarrow> py_error + real" where
  "np_max a =
     (case elems a of
        [] \<Rightarrow> Inl ValueError
      | x # xs \<Rightarrow> Inr (python_float (dtype a) (fold max xs x)))"

text \<open>The element type of \<^verbatim>\<open>array <op> python_float\<close>: a floating array keeps its type,
  an integer array becomes \<^verbatim>\<open>float64\<close>.\<close>

definition float_result :: "dtype \<Rightarrow> dtype" where
  "float_result dt = (if issubdtype_integer dt then Float64 else dt)"

definition map_elems :: "(real \<Rightarrow> real) \<Rightarrow> dtype \<Rightarrow> ndarray \<Rightarrow> ndarray" where
  "map_elems f dt a = a\<lparr>dtype := dt, elems := map f (elems a)\<rparr>"

text \<open>\<^verbatim>\<open>a.astype(dt)\<close>. A conversion to an integer type truncates towards zero; numpy
  leaves the conversion of a value outside the type's range undefined, and the model
  wraps it into the range, as the conversion instructions of x86-64 do for the signed
  types. A conversion of an integer type to a floating type rounds; a conversion between
  floating types is exact here.\<close>

definition trunc_real :: "real \<Rightarrow> int" where
  "trunc_real x = (if 0 \<le> x then \<lfloor>x\<rfloor> else \<lceil>x\<rceil>)"

definition wrap_int :: "dtype \<Rightarrow> int \<Rightarrow> int" where
  "wrap_int dt n = iinfo_min dt + (n - iinfo_min dt) mod (iinfo_max dt - iinfo_min dt + 1)"

definition cast_elem :: "dtype \<Rightarrow> dtype \<Rightarrow> real \<Rightarrow> real" where
  "cast_elem src dt x =
     (if issubdtype_integer dt then of_int (wrap_int dt (trunc_real x))
      else if issubdtype_integer src then int_to_float dt x
      else x)"

definition astype :: "ndarray \<Rightarrow> dtype \<Rightarrow> ndarray" where
  "astype a dt = map_elems (cast_elem (dtype a) dt) dt a"

text \<open>\<^verbatim>\<open>np.clip(a, lo, hi)\<close> is \<^verbatim>\<open>minimum(maximum(a, lo), hi)\<close> and keeps the element type.\<close>

definition np_clip :: "ndarray \<Rightarrow> real \<Rightarrow> real \<Rightarrow> ndarray" where
  "np_clip a lo hi = map_elems (\<lambda>x. min (max x lo) hi) (dtype a) a"

definition zeros_like :: "ndarray \<Rightarrow> dtype \<Rightarrow> ndarray" where
  "zeros_like a dt = map_elems (\<lambda>_. 0) dt a"

text \<open>\<^verbatim>\<open>a + c\<close>, \<^verbatim>\<open>a - c\<close>, \<^verbatim>\<open>a * c\<close>, \<^verbatim>\<open>c - a\<close> and \<^verbatim>\<open>c * a\<close> with a Python float \<open>c\<close>.\<close>

definition add_scalar :: "ndarray \<Rightarrow> real \<Rightarrow> ndarray" where
  "add_scalar a c = map_elems (\<lambda>x. x + c) (float_result (dtype a)) a"

definition sub_scalar :: "ndarray \<Rightarrow> real \<Rightarrow> ndarray" where
  "sub_scalar a c = map_elems (\<lambda>x. x - c) (float_result (dtype a)) a"

definition mul_scalar :: "ndarray \<Rightarrow> real \<Rightarrow> ndarray" where
  "mul_scalar a c = map_elems (\<lambda>x. x * c) (float_result (dtype a)) a"

definition rsub_scalar :: "real \<Rightarrow> ndarray \<Rightarrow> ndarray" where
  "rsub_scalar c a = map_elems (\<lambda>x. c - x) (float_result (dtype a)) a"

definition rmul_scalar :: "real \<Rightarrow> ndarray \<Rightarrow> ndarray" where
  "rmul_scalar c a = map_elems (\<lambda>x. c * x) (float_result (dtype a)) a"

text \<open>\<^verbatim>\<open>a / c\<close> with a Python float \<open>c\<close>: numpy does not raise when \<open>c\<close> is zero, it
  fills the result with \<^verbatim>\<open>inf\<close> and \<^verbatim>\<open>nan\<close>, which no real number stands for.\<close>

definition div_scalar :: "ndarray \<Rightarrow> real \<Rightarrow> py_error + ndarray" where
  "div_scalar a c =
     (if c = 0 then Inl NonFiniteValue
      else Inr (map_elems (\<lambda>x. x / c) (float_result (dtype a)) a))"

text \<open>\<^verbatim>\<open>a - b\<close> and \<^verbatim>\<open>a + b\<close> of two arrays of one shape and one floating element type
  (the only use the source makes of them).\<close>

definition sub_array :: "ndarray \<Rightarrow> ndarray \<Rightarrow> ndarray" where
  "sub_array a b = a\<lparr>elems := map2 (\<lambda>x y. x - y) (elems a) (elems b)\<rparr>"

definition add_array :: "ndarray \<Rightarrow> ndarray \<Rightarrow> ndarray" where
  "add_array a b = a\<lparr>elems := map2 (\<lambda>x y. x + y) (elems a) (elems b)\<rparr>"

text \<open>\<^verbatim>\<open>np.power(a, p)\<close> with a Python float \<open>p\<close>, over the parameter \<open>pw\<close>.\<close>

definition np_power :: "(real \<Rightarrow> real \<Rightarrow> real) \<Rightarrow> ndarray \<Rightarrow> real \<Rightarrow> ndarray" where
  "np_power pw a p = map_elems (\<lambda>x. pw x p) (float_result (dtype a)) a"

text \<open>\<^verbatim>\<open>gaussian_filter(a, sigma=1.0)\<close>, over the parameter \<open>gf\<close>: the result has the
  shape and the element type of the input.\<close>

definition gaussian_filter :: "(nat list \<Rightarrow> real list \<Rightarrow> real list) \<Rightarrow> ndarray \<Rightarrow> ndarray" where
  "gaussian_filter gf a = a\<lparr>elems := gf (shape a) (elems a)\<rparr>"

subsection \<open>Settings\<close>

record AdjustmentSettings =
  brightness :: real
  contrast :: real
  gamma :: real
  sharpness :: real
  invert :: bool

definition default_settings :: AdjustmentSettings where
  "default_settings =
     \<lparr>brightness = 0, contrast = 1, gamma = 1, sharpness = 0, invert = False\<rparr>"

definition is_default :: "AdjustmentSettings \<Rightarrow> bool" where
  "is_default s \<longleftrightarrow>
     brightness s = 0 \<and> contrast s = 1 \<and> gamma s = 1 \<and> sharpness s = 0 \<and> \<not> invert s"

subsection \<open>The adjuster\<close>

record ImageAdjuster =
  settings :: AdjustmentSettings
  original_volume :: "ndarray option"
  original_dtype :: "dtype option"
  original_min :: "real option"
  original_max :: "real option"

definition init_ImageAdjuster :: ImageAdjuster where
  "init_ImageAdjuster =
     \<lparr>settings = default_settings, original_volume = None, original_dtype = None,
      original_min = None, original_max = None\<rparr>"

text \<open>\<^verbatim>\<open>set_original_volume\<close> assigns the copy and the element type before it asks for
  the minimum, so a \<^verbatim>\<open>ValueError\<close> on an empty volume leaves these two fields assigned.
  The result is the adjuster afterwards and the exception raised, if any.\<close>

definition set_original_volume :: "ImageAdjuster \<Rightarrow> ndarray \<Rightarrow> ImageAdjuster \<times> py_error option" where
  "set_original_volume self volume =
     (let self1 = self\<lparr>original_volume := Some volume, original_dtype := Some (dtype volume)\<rparr>
      in case np_min volume of
           Inl e \<Rightarrow> (self1, Some e)
         | Inr lo \<Rightarrow>
             (let self2 = self1\<lparr>original_min := Some lo\<rparr>
              in case np_max volume of
                   Inl e \<Rightarrow> (self2, Some e)
                 | Inr hi \<Rightarrow> (self2\<lparr>original_max := Some hi\<rparr>, None)))"

definition get_original_volume :: "ImageAdjuster \<Rightarrow> ndarray option" where
  "get_original_volume self = original_volume self"

definition has_original_volume :: "ImageAdjuster \<Rightarrow> bool" where
  "has_original_volume self \<longleftrightarrow> original_volume self \<noteq> None"

subsection \<open>The five transforms\<close>

definition apply_brightness :: "ndarray \<Rightarrow> real \<Rightarrow> ndarray" where
  "apply_brightness img b =
     (if b = 0 then img
      else let offset = b / 100 in np_clip (add_scalar img offset) 0 1)"

definition apply_contrast :: "ndarray \<Rightarrow> real \<Rightarrow> ndarray" where
  "apply_contrast img c =
     (if c = 1 then img
      else np_clip (add_scalar (mul_scalar (sub_scalar img (1/2)) c) (1/2)) 0 1)"

text \<open>\<^verbatim>\<open>1.0 / gamma\<close> is a division of Python floats: it raises for \<open>gamma = 0\<close>.\<close>

definition apply_gamma :: "(real \<Rightarrow> real \<Rightarrow> real) \<Rightarrow> ndarray \<Rightarrow> real \<Rightarrow> py_error + ndarray" where
  "apply_gamma pw img g =
     (if g = 1 then Inr img
      else if g = 0 then Inl ZeroDivisionError
      else Inr (np_power pw (np_clip img 0 1) (1 / g)))"

definition apply_sharpness :: "(nat list \<Rightarrow> real list \<Rightarrow> real list) \<Rightarrow> ndarray \<Rightarrow> real \<Rightarrow> ndarray" where
  "apply_sharpness gf img s =
     (if s = 0 then img
      else let amount = s / 50;
               blurred = gaussian_filter gf img;
               sharpened = add_array img (rmul_scalar amount (sub_array img blurred))
           in np_clip sharpened 0 1)"

definition apply_invert :: "ndarray \<Rightarrow> bool \<Rightarrow> ndarray" where
  "apply_invert img flag = (if \<not> flag then img else rsub_scalar 1 img)"

subsection \<open>The two apply paths\<close>

text \<open>The block that both paths contain (lines 205-208 and 255-258): the normalised field
  for the reference range \<open>v_min\<close>, \<open>v_max\<close>.\<close>

definition normalized_field :: "ndarray \<Rightarrow> real \<Rightarrow> real \<Rightarrow> py_error + ndarray" where
  "normalized_field volume v_min v_max =
     (if v_max = v_min then Inr (zeros_like volume Float32)
      else div_scalar (sub_scalar (astype volume Float32) v_min) (v_max - v_min))"

text \<open>Lines 222-226: the clip to the range of an integer type, and the cast. The bounds
  are Python integers, which \<^verbatim>\<open>np.clip\<close> converts to the element type of \<open>result\<close>
  (\<^verbatim>\<open>float32\<close> wherever the source calls it).\<close>

definition restore_dtype :: "dtype option \<Rightarrow> ndarray \<Rightarrow> ndarray" where
  "restore_dtype odt result =
     (case odt of
        None \<Rightarrow> result
      | Some dt \<Rightarrow>
          astype (if issubdtype_integer dt
                  then np_clip result (python_int_as (dtype result) (iinfo_min dt))
                         (python_int_as (dtype result) (iinfo_max dt))
                  else result) dt)"

definition apply_adjustments ::
  "(real \<Rightarrow> real \<Rightarrow> real) \<Rightarrow> (nat list \<Rightarrow> real list \<Rightarrow> real list) \<Rightarrow>
   ImageAdjuster \<Rightarrow> ndarray option \<Rightarrow> AdjustmentSettings option \<Rightarrow> py_error + ndarray" where
  "apply_adjustments pw gf self volume st =
     (case (case volume of
              None \<Rightarrow> (case original_volume self of
                          None \<Rightarrow> Inl ValueError
                        | Some v \<Rightarrow> Inr v)
            | Some v \<Rightarrow> Inr v) of
        Inl e \<Rightarrow> Inl e
      | Inr volume \<Rightarrow>
          (let st = (case st of None \<Rightarrow> settings self | Some s \<Rightarrow> s)
           in if is_default st then Inr volume
              else
                case (case original_min self of Some m \<Rightarrow> Inr m | None \<Rightarrow> np_min volume) of
                  Inl e \<Rightarrow> Inl e
                | Inr v_min \<Rightarrow>
                    (case (case original_max self of Some m \<Rightarrow> Inr m | None \<Rightarrow> np_max volume) of
                       Inl e \<Rightarrow> Inl e
                     | Inr v_max \<Rightarrow>
                         (case normalized_field volume v_min v_max of
                            Inl e \<Rightarrow> Inl e
                          | Inr normalized \<Rightarrow>
                              (let result = normalized;
                                   result = apply_brightness result (brightness st);
                                   result = apply_contrast result (contrast st)
                               in case apply_gamma pw result (gamma st) of
                                    Inl e \<Rightarrow> Inl e
                                  | Inr result \<Rightarrow>
                                      (let result = apply_sharpness gf result (sharpness st);
                                           result = apply_invert result (invert st);
                                           result = add_scalar (mul_scalar result (v_max - v_min)) v_min
                                       in Inr (restore_dtype (original_dtype self) result)))))))"

definition apply_to_slice ::
  "(real \<Rightarrow> real \<Rightarrow> real) \<Rightarrow> (nat list \<Rightarrow> real list \<Rightarrow> real list) \<Rightarrow>
   ImageAdjuster \<Rightarrow> ndarray \<Rightarrow> AdjustmentSettings option \<Rightarrow> py_error + ndarray" where
  "apply_to_slice pw gf self slice_2d st =
     (let st = (case st of None \<Rightarrow> settings self | Some s \<Rightarrow> s)
      in if is_default st then Inr slice_2d
         else
           case (if original_min self \<noteq> None \<and> original_max self \<noteq> None
                 then Inr (the (original_min self), the (original_max self))
                 else (case np_min slice_2d of
                         Inl e \<Rightarrow> Inl e
                       | Inr lo \<Rightarrow> (case np_max slice_2d of
                                     Inl e \<Rightarrow> Inl e
                                   | Inr hi \<Rightarrow> Inr (lo, hi)))) of
             Inl e \<Rightarrow> Inl e
           | Inr (v_min, v_max) \<Rightarrow>
               (case normalized_field slice_2d v_min v_max of
                  Inl e \<Rightarrow> Inl e
                | Inr normalized \<Rightarrow>
                    (let result = normalized;
                         result = apply_brightness result (brightness st);
                         result = apply_contrast result (contrast st)
                     in case apply_gamma pw result (gamma st) of
                          Inl e \<Rightarrow> Inl e
                        | Inr result \<Rightarrow>
                            (let result = apply_sharpness gf result (sharpness st);
                                 result = apply_invert result (invert st);
                                 result = add_scalar (mul_scalar result (v_max - v_min)) v_min
                             in Inr result))))"

subsection \<open>Slices of a volume\<close>

text \<open>The positions, in row-major order, of the plane \<open>k\<close> of a volume of shape
  \<open>[d0, d1, d2]\<close> along an axis: numpy's \<^verbatim>\<open>v[k, :, :]\<close>, \<^verbatim>\<open>v[:, k, :]\<close> and
  \<^verbatim>\<open>v[:, :, k]\<close>.\<close>

definition slice_positions :: "nat \<Rightarrow> nat \<Rightarrow> nat \<Rightarrow> nat \<Rightarrow> nat \<Rightarrow> nat list" where
  "slice_positions d0 d1 d2 axis k =
     (if axis = 0 then concat (map (\<lambda>j. map (\<lambda>l. (k * d1 + j) * d2 + l) [0..<d2]) [0..<d1])
      else if axis = 1 then concat (map (\<lambda>i. map (\<lambda>l. (i * d1 + k) * d2 + l) [0..<d2]) [0..<d0])
      else concat (map (\<lambda>i. map (\<lambda>j. (i * d1 + j) * d2 + k) [0..<d1]) [0..<d0]))"

definition slice_shape :: "nat \<Rightarrow> nat \<Rightarrow> nat \<Rightarrow> nat \<Rightarrow> nat list" where
  "slice_shape d0 d1 d2 axis =
     (if axis = 0 then [d1, d2] else if axis = 1 then [d0, d2] else [d0, d1])"

text \<open>The 2D slice of a 3D volume; \<open>None\<close> where numpy raises \<^verbatim>\<open>IndexError\<close> (no such
  axis, index out of range) and for an array that is not a volume with as many elements
  as its shape says. Indices count from zero; numpy's negative indices are not modelled.\<close>

definition take_slice :: "ndarray \<Rightarrow> nat \<Rightarrow> nat \<Rightarrow> ndarray option" where
  "take_slice v axis k =
     (case shape v of
        [d0, d1, d2] \<Rightarrow>
          (if axis < 3 \<and> k < [d0, d1, d2] ! axis \<and> length (elems v) = d0 * d1 * d2
           then Some \<lparr>dtype = dtype v, shape = slice_shape d0 d1 d2 axis,
                      elems = map (\<lambda>p. elems v ! p) (slice_positions d0 d1 d2 axis k)\<rparr>
           else None)
      | _ \<Rightarrow> None)"

subsection \<open>Strings\<close>

text \<open>A Python \<^verbatim>\<open>str\<close> is modelled as a \<^typ>\<open>string\<close> of ASCII characters; the white
  space and the digits of Unicode beyond ASCII are not modelled.\<close>

text \<open>\<^verbatim>\<open>str.isspace\<close> on ASCII: tab, line feed, vertical tab, form feed, carriage return,
  the four separators \<^verbatim>\<open>0x1c\<close> to \<^verbatim>\<open>0x1f\<close>, and the space.\<close>

definition is_space :: "char \<Rightarrow> bool" where
  "is_space c \<longleftrightarrow> (let n = (of_char c :: nat) in (9 \<le> n \<and> n \<le> 13) \<or> (28 \<le> n \<and> n \<le> 32))"

definition strip :: "string \<Rightarrow> string" where
  "strip s = rev (dropWhile is_space (rev (dropWhile is_space s)))"

definition startswith :: "string \<Rightarrow> string \<Rightarrow> bool" where
  "startswith s p \<longleftrightarrow> take (length p) s = p"

text \<open>\<^verbatim>\<open>s.split(':')[1]\<close>: the text between the first and the second colon; Python raises
  \<^verbatim>\<open>IndexError\<close> when \<open>s\<close> has no colon.\<close>

definition split_colon_1 :: "string \<Rightarrow> string option" where
  "split_colon_1 s =
     (case dropWhile (\<lambda>c. c \<noteq> CHR '':'') s of
        [] \<Rightarrow> None
      | _ # r \<Rightarrow> Some (takeWhile (\<lambda>c. c \<noteq> CHR '':'') r))"

definition ascii_lower :: "char \<Rightarrow> char" where
  "ascii_lower c =
     (let n = (of_char c :: nat) in if 65 \<le> n \<and> n \<le> 90 then char_of (n + 32) else c)"

definition lower :: "string \<Rightarrow> string" where
  "lower s = map ascii_lower s"

subsection \<open>\<^verbatim>\<open>float(str)\<close>\<close>

text \<open>What \<^verbatim>\<open>float\<close> makes of a string: the number a decimal literal denotes, one of the
  literals \<^verbatim>\<open>inf\<close>, \<^verbatim>\<open>infinity\<close>, \<^verbatim>\<open>nan\<close> (which denote no real number), or a
  \<^verbatim>\<open>ValueError\<close>.\<close>

datatype float_literal = Lit real | LitNonFinite | NotFloat

definition is_digit :: "char \<Rightarrow> bool" where
  "is_digit c \<longleftrightarrow> (let n = (of_char c :: nat) in 48 \<le> n \<and> n \<le> 57)"

definition digit_val :: "char \<Rightarrow> nat" where
  "digit_val c = of_char c - 48"

text \<open>A run of digits, where single underscores may stand between two digits: the digits
  read, and the rest of the string.\<close>

fun digitpart :: "string \<Rightarrow> string \<Rightarrow> string \<times> string" where
  "digitpart acc [] = (acc, [])"
| "digitpart acc [c] = (if is_digit c then (acc @ [c], []) else (acc, [c]))"
| "digitpart acc (c # d # r) =
     (if is_digit c then digitpart (acc @ [c]) (d # r)
      else if c = CHR ''_'' \<and> acc \<noteq> [] \<and> is_digit d then digitpart (acc @ [d]) r
      else (acc, c # d # r))"

definition digits_val :: "string \<Rightarrow> nat" where
  "digits_val ds = foldl (\<lambda>n c. 10 * n + digit_val c) 0 ds"

text \<open>The exponent: empty, or \<^verbatim>\<open>e\<close>/\<^verbatim>\<open>E\<close>, an optional sign and digits up to the end.\<close>

definition exponent :: "string \<Rightarrow> int option" where
  "exponent s =
     (case s of
        [] \<Rightarrow> Some 0
      | c # r \<Rightarrow>
          if c = CHR ''e'' \<or> c = CHR ''E'' then
            (let neg = (case r of [] \<Rightarrow> False | x # _ \<Rightarrow> x = CHR ''-'');
                 r' = (case r of [] \<Rightarrow> [] | x # xs \<Rightarrow> if x = CHR ''+'' \<or> x = CHR ''-'' then xs else r);
                 (ds, rest) = digitpart [] r'
             in if ds = [] \<or> rest \<noteq> [] then None
                else Some (if neg then - int (digits_val ds) else int (digits_val ds)))
          else None)"

definition scale10 :: "real \<Rightarrow> int \<Rightarrow> real" where
  "scale10 x e = (if 0 \<le> e then x * 10 ^ nat e else x / 10 ^ nat (- e))"

definition decimal :: "string \<Rightarrow> real option" where
  "decimal s =
     (let (ip, r1) = digitpart [] s;
          (fp, r2) = (case r1 of
                        [] \<Rightarrow> ([], r1)
                      | c # r \<Rightarrow> if c = CHR ''.'' then digitpart [] r else ([], r1))
      in if ip = [] \<and> fp = [] then None
         else case exponent r2 of
                None \<Rightarrow> None
              | Some e \<Rightarrow>
                  Some (scale10 (real (digits_val ip) + real (digits_val fp) / 10 ^ length fp) e))"

definition py_float :: "string \<Rightarrow> float_literal" where
  "py_float s =
     (let t = strip s;
          neg = (case t of [] \<Rightarrow> False | c # _ \<Rightarrow> c = CHR ''-'');
          u = (case t of [] \<Rightarrow> [] | c # r \<Rightarrow> if c = CHR ''+'' \<or> c = CHR ''-'' then r else t)
      in if lower u = ''inf'' \<or> lower u = ''infinity'' \<or> lower u = ''nan'' then LitNonFinite
         else case decimal u of
                None \<Rightarrow> NotFloat
              | Some x \<Rightarrow> Lit (if neg then - x else x))"

subsection \<open>Formatting\<close>

text \<open>The format specifications \<^verbatim>\<open>.1f\<close>, \<^verbatim>\<open>.2f\<close> and \<^verbatim>\<open>+.1f\<close>: the value rounded to
  \<open>prec\<close> decimals, halves to the even neighbour, with a minus sign for a negative value
  (also when it rounds to zero) and, under \<open>signed\<close>, a plus sign otherwise.\<close>

definition round_half_even :: "real \<Rightarrow> int" where
  "round_half_even x =
     (let f = \<lfloor>x\<rfloor>; d = x - of_int f
      in if d < 1/2 then f else if 1/2 < d then f + 1 else if even f then f else f + 1)"

fun digits_of :: "nat \<Rightarrow> string" where
  "digits_of n =
     (if n < 10 then [char_of (48 + n)] else digits_of (n div 10) @ [char_of (48 + n mod 10)])"

definition format_f :: "bool \<Rightarrow> nat \<Rightarrow> real \<Rightarrow> string" where
  "format_f signed prec x =
     (let m = nat (round_half_even (\<bar>x\<bar> * 10 ^ prec));
          fs = digits_of (m mod 10 ^ prec)
      in (if x < 0 then ''-'' else if signed then ''+'' else '''')
         @ digits_of (m div 10 ^ prec)
         @ (if prec = 0 then '''' else ''.'' @ replicate (prec - length fs) (CHR ''0'') @ fs))"

subsection \<open>Export and import of the settings\<close>

definition newline :: string where
  "newline = [CHR 0x0A]"

text \<open>The arguments of the calls of \<^verbatim>\<open>f.write\<close>, in order, in the four blocks of the
  source: header and time stamp, volume information, parameters, descriptions and
  footer. \<open>now\<close> is the formatted time stamp; \<open>volume_info\<close> holds the keys and values
  as \<^verbatim>\<open>str\<close> renders them.\<close>

definition header_writes :: "string \<Rightarrow> string list" where
  "header_writes now =
     [replicate 60 (CHR ''='') @ newline,
      ''VMM-FRC Image Adjustment Settings'' @ newline,
      replicate 60 (CHR ''='') @ newline @ newline,
      ''Exported: '' @ now @ newline @ newline]"

definition volume_info_writes :: "(string \<times> string) list option \<Rightarrow> string list" where
  "volume_info_writes volume_info =
     (case volume_info of
        None \<Rightarrow> []
      | Some info \<Rightarrow>
          if info = [] then []
          else [replicate 40 (CHR ''-'') @ newline,
                ''Volume Information'' @ newline,
                replicate 40 (CHR ''-'') @ newline]
               @ map (\<lambda>(key, value). ''  '' @ key @ '': '' @ value @ newline) info
               @ [newline])"

definition parameter_writes :: "AdjustmentSettings \<Rightarrow> string list" where
  "parameter_writes st =
     [replicate 40 (CHR ''-'') @ newline,
      ''Adjustment Parameters'' @ newline,
      replicate 40 (CHR ''-'') @ newline,
      ''  Brightness:  '' @ format_f True 1 (brightness st) @ newline,
      ''  Contrast:    '' @ format_f False 2 (contrast st) @ newline,
      ''  Gamma:       '' @ format_f False 2 (gamma st) @ newline,
      ''  Sharpness:   '' @ format_f False 1 (sharpness st) @ newline,
      ''  Invert:      '' @ (if invert st then ''Yes'' else ''No'') @ newline,
      newline]"

definition description_writes :: "string list" where
  "description_writes =
     [replicate 40 (CHR ''-'') @ newline,
      ''Parameter Descriptions'' @ newline,
      replicate 40 (CHR ''-'') @ newline,
      ''  Brightness:  Shifts all pixel values (-100 to +100)'' @ newline,
      ''  Contrast:    Multiplier around midpoint (0.1 to 3.0, 1.0 = no change)'' @ newline,
      ''  Gamma:       Gamma correction (0.1 to 3.0, 1.0 = no change)'' @ newline,
      ''               Lower values brighten, higher values darken'' @ newline,
      ''  Sharpness:   Unsharp mask amount (0 to 100)'' @ newline,
      ''  Invert:      Inverts all pixel intensities'' @ newline,
      newline @ replicate 60 (CHR ''='') @ newline]"

definition export_writes ::
  "string \<Rightarrow> AdjustmentSettings \<Rightarrow> (string \<times> string) list option \<Rightarrow> string list" where
  "export_writes now st volume_info =
     header_writes now @ volume_info_writes volume_info @ parameter_writes st @ description_writes"

text \<open>The file system: the text files by path, and the paths that can be opened for
  writing. Opening for writing fails with \<^verbatim>\<open>OSError\<close> elsewhere; opening for reading
  fails for a path without a file. A file that was opened is written in full.\<close>

record filesystem =
  files :: "string \<rightharpoonup> string"
  writable :: "string \<Rightarrow> bool"

text \<open>The body of the \<^verbatim>\<open>try\<close> of \<^verbatim>\<open>export_adjustment_settings\<close>.\<close>

definition export_body ::
  "filesystem \<Rightarrow> string \<Rightarrow> AdjustmentSettings \<Rightarrow> string \<Rightarrow> (string \<times> string) list option \<Rightarrow>
   py_error + filesystem" where
  "export_body fs now st filepath volume_info =
     (if \<not> writable fs filepath then Inl OSError
      else Inr (fs\<lparr>files := (files fs)(filepath \<mapsto> concat (export_writes now st volume_info))\<rparr>))"

text \<open>\<^verbatim>\<open>export_adjustment_settings\<close>: the value returned and the file system afterwards.\<close>

definition export_adjustment_settings ::
  "filesystem \<Rightarrow> string \<Rightarrow> AdjustmentSettings \<Rightarrow> string \<Rightarrow> (string \<times> string) list option \<Rightarrow>
   bool \<times> filesystem" where
  "export_adjustment_settings fs now st filepath volume_info =
     (case export_body fs now st filepath volume_info of
        Inl e \<Rightarrow> (False, fs)
      | Inr fs' \<Rightarrow> (True, fs'))"

text \<open>The lines of a text file, as \<^verbatim>\<open>for line in f\<close> yields them, without their
  terminators (which \<^verbatim>\<open>strip\<close> removes). A carriage return ends a line as a line feed
  does; the pair \<^verbatim>\<open>\r\n\<close> then gives one more, empty, line than Python reads, and an
  empty line sets nothing.\<close>

definition is_newline :: "char \<Rightarrow> bool" where
  "is_newline c \<longleftrightarrow> c = CHR 0x0A \<or> c = CHR 0x0D"

function file_lines :: "string \<Rightarrow> string list" where
  "file_lines [] = []"
| "file_lines (c # cs) =
     takeWhile (\<lambda>x. \<not> is_newline x) (c # cs)
     # (case dropWhile (\<lambda>x. \<not> is_newline x) (c # cs) of
          [] \<Rightarrow> []
        | _ # r \<Rightarrow> file_lines r)"
  by pat_completeness auto
termination
proof (relation "measure length")
  show "wf (measure length)" by simp
next
  fix c cs x r
  assume "dropWhile (\<lambda>x. \<not> is_newline x) (c # cs) = x # r"
  then have "length (x # r) \<le> length (c # cs)"
    using length_dropWhile_le [of "\<lambda>x. \<not> is_newline x" "c # cs"] by simp
  then show "(r, c # cs) \<in> measure length" by simp
qed

text \<open>The state of the loop of \<^verbatim>\<open>load_adjustment_settings\<close>: the settings so far, and
  whether a numeric field was given one of the literals \<^verbatim>\<open>inf\<close>, \<^verbatim>\<open>infinity\<close>,
  \<^verbatim>\<open>nan\<close>, which the settings of this model cannot hold.\<close>

type_synonym load_state = "AdjustmentSettings \<times> bool"

text \<open>\<^verbatim>\<open>float(line.split(':')[1].strip())\<close>, stored by \<open>upd\<close>.\<close>

definition store_float ::
  "(real \<Rightarrow> AdjustmentSettings \<Rightarrow> AdjustmentSettings) \<Rightarrow> load_state \<Rightarrow> string \<Rightarrow>
   py_error + load_state" where
  "store_float upd ls line =
     (case split_colon_1 line of
        None \<Rightarrow> Inl IndexError
      | Some field \<Rightarrow>
          (case py_float (strip field) of
             NotFloat \<Rightarrow> Inl ValueError
           | LitNonFinite \<Rightarrow> Inr (fst ls, True)
           | Lit x \<Rightarrow> Inr (upd x (fst ls), snd ls)))"

text \<open>The body of the loop, lines 351-362.\<close>

definition load_line :: "load_state \<Rightarrow> string \<Rightarrow> py_error + load_state" where
  "load_line ls raw =
     (let line = strip raw
      in if startswith line ''Brightness:'' then store_float (\<lambda>x s. s\<lparr>brightness := x\<rparr>) ls line
         else if startswith line ''Contrast:'' then store_float (\<lambda>x s. s\<lparr>contrast := x\<rparr>) ls line
         else if startswith line ''Gamma:'' then store_float (\<lambda>x s. s\<lparr>gamma := x\<rparr>) ls line
         else if startswith line ''Sharpness:'' then store_float (\<lambda>x s. s\<lparr>sharpness := x\<rparr>) ls line
         else if startswith line ''Invert:'' then
           (case split_colon_1 line of
              None \<Rightarrow> Inl IndexError
            | Some field \<Rightarrow>
                (let value = lower (strip field)
                 in Inr ((fst ls)\<lparr>invert := (value = ''yes'' \<or> value = ''true'' \<or> value = ''1'')\<rparr>,
                         snd ls)))
         else Inr ls)"

fun load_lines :: "load_state \<Rightarrow> string list \<Rightarrow> py_error + load_state" where
  "load_lines ls [] = Inr ls"
| "load_lines ls (l # rest) =
     (case load_line ls l of Inl e \<Rightarrow> Inl e | Inr ls' \<Rightarrow> load_lines ls' rest)"

text \<open>The body of the \<^verbatim>\<open>try\<close> of \<^verbatim>\<open>load_adjustment_settings\<close>.\<close>

definition load_body :: "filesystem \<Rightarrow> string \<Rightarrow> py_error + load_state" where
  "load_body fs filepath =
     (case files fs filepath of
        None \<Rightarrow> Inl OSError
      | Some content \<Rightarrow> load_lines (default_settings, False) (file_lines content))"

text \<open>What \<^verbatim>\<open>load_adjustment_settings\<close> returns: \<^verbatim>\<open>None\<close>, settings, or settings with
  \<^verbatim>\<open>inf\<close> or \<^verbatim>\<open>nan\<close> in them, about which the model says nothing more.\<close>

datatype load_result = NotLoaded | Loaded AdjustmentSettings | LoadedNonFinite

definition load_adjustment_settings :: "filesystem \<Rightarrow> string \<Rightarrow> load_result" where
  "load_adjustment_settings fs filepath =
     (case load_body fs filepath of
        Inl e \<Rightarrow> NotLoaded
      | Inr ls \<Rightarrow> if snd ls then LoadedNonFinite else Loaded (fst ls))"

subsection \<open>The pipeline in the words of the specification\<close>

text \<open>Specification, section 4.1: the five transforms run in the fixed order
  brightness, contrast, gamma, sharpness, invert.\<close>

definition transform_chain ::
  "(real \<Rightarrow> real \<Rightarrow> real) \<Rightarrow> (nat list \<Rightarrow> real list \<Rightarrow> real list) \<Rightarrow>
   AdjustmentSettings \<Rightarrow> ndarray \<Rightarrow> py_error + ndarray" where
  "transform_chain pw gf st x =
     (case apply_gamma pw (apply_contrast (apply_brightness x (brightness st)) (contrast st))
             (gamma st) of
        Inl e \<Rightarrow> Inl e
      | Inr y \<Rightarrow> Inr (apply_invert (apply_sharpness gf y (sharpness st)) (invert st)))"

text \<open>Specification, section 4.2: \<^verbatim>\<open>denormalize(field, min, max)\<close> is
  \<^verbatim>\<open>field * (max - min) + min\<close>.\<close>

definition denormalize :: "ndarray \<Rightarrow> real \<Rightarrow> real \<Rightarrow> ndarray" where
  "denormalize field lo hi = add_scalar (mul_scalar field (hi - lo)) lo"

text \<open>Instances of the two parameters, for applying a theorem to concrete arguments:
  the real power (which agrees with \<^verbatim>\<open>np.power\<close> for a positive base) and a filter that
  returns its input. No theorem depends on the choice.\<close>

definition pw_powr :: "real \<Rightarrow> real \<Rightarrow> real" where
  "pw_powr x p = x powr p"

definition gf_none :: "nat list \<Rightarrow> real list \<Rightarrow> real list" where
  "gf_none sh xs = xs"

section \<open>Properties\<close>

subsection \<open>Conversions of integers to floating point\<close>

lemma bit_length_le: "m < 2 ^ p \<Longrightarrow> bit_length m \<le> p"
proof (induction p arbitrary: m)
  case 0
  then show ?case by (simp add: bit_length.simps)
next
  case (Suc p)
  show ?case
  proof (cases "m = 0")
    case True
    then show ?thesis by (simp add: bit_length.simps)
  next
    case False
    have "m div 2 < 2 ^ p"
      using Suc.prems by simp
    then have "bit_length (m div 2) \<le> p"
      by (rule Suc.IH)
    then show ?thesis
      using False by (subst bit_length.simps) simp
  qed
qed

lemma bit_length_gt: "2 ^ b \<le> m \<Longrightarrow> b < bit_length m"
proof (induction b arbitrary: m)
  case 0
  then show ?case by (subst bit_length.simps) simp
next
  case (Suc b)
  have "2 ^ b \<le> m div 2"
    using Suc.prems by simp
  then have "b < bit_length (m div 2)"
    by (rule Suc.IH)
  moreover have "m \<noteq> 0"
  proof
    assume "m = 0"
    then have "(2::nat) ^ Suc b \<le> 0"
      using Suc.prems by simp
    then show False
      by simp
  qed
  ultimately show ?case
    by (subst bit_length.simps) simp
qed

lemma bit_length_eq: "2 ^ b \<le> m \<Longrightarrow> m < 2 ^ Suc b \<Longrightarrow> bit_length m = Suc b"
  using bit_length_gt [of b m] bit_length_le [of m "Suc b"] by simp

lemma round_to_bits_small: "\<bar>n\<bar> < 2 ^ p \<Longrightarrow> round_to_bits p n = n"
proof -
  assume a: "\<bar>n\<bar> < 2 ^ p"
  have "int (nat \<bar>n\<bar>) < int (2 ^ p)"
    using a by simp
  then have "nat \<bar>n\<bar> < 2 ^ p"
    by (simp only: of_nat_less_iff)
  then have "bit_length (nat \<bar>n\<bar>) \<le> p"
    by (rule bit_length_le)
  then have "round_to_bits p n = sgn n * int (nat \<bar>n\<bar>)"
    by (simp add: round_to_bits_def)
  also have "\<dots> = n"
    by (simp add: sgn_if)
  finally show ?thesis .
qed

lemma int_to_float_small [simp]:
  assumes "x \<in> \<int>" and "\<bar>x\<bar> < 2 ^ significand_bits dt"
  shows "int_to_float dt x = x"
proof -
  obtain n where n: "x = of_int n"
    using assms(1) by (auto elim: Ints_cases)
  have "real_of_int \<bar>n\<bar> < real_of_int (2 ^ significand_bits dt)"
    using assms(2) by (simp add: n)
  then have "\<bar>n\<bar> < 2 ^ significand_bits dt"
    by (simp only: of_int_less_iff)
  then show ?thesis
    by (simp add: int_to_float_def n round_to_bits_small)
qed

lemma python_float_small [simp]: "x \<in> \<int> \<Longrightarrow> \<bar>x\<bar> < 2 ^ 53 \<Longrightarrow> python_float dt x = x"
  by (simp add: python_float_def)

lemma python_float_floating [simp]: "\<not> issubdtype_integer dt \<Longrightarrow> python_float dt x = x"
  by (simp add: python_float_def)

lemma significand_bits_le: "significand_bits dt \<le> 53"
  by (cases dt) simp_all

lemma python_int_as_small [simp]:
  assumes "\<bar>n\<bar> < 2 ^ significand_bits dt"
  shows "python_int_as dt n = of_int n"
proof -
  have "(2::int) ^ significand_bits dt \<le> 2 ^ 53"
    using significand_bits_le [of dt] by (intro power_increasing) simp_all
  then have "\<bar>n\<bar> < 2 ^ 53"
    using assms by linarith
  then show ?thesis
    using assms by (simp add: python_int_as_def round_to_bits_small)
qed

lemma cast_elem_floating [simp]:
  "\<not> issubdtype_integer src \<Longrightarrow> \<not> issubdtype_integer dt \<Longrightarrow> cast_elem src dt x = x"
  by (simp add: cast_elem_def)

subsection \<open>When the apply paths return\<close>

lemma np_min_nonempty: "elems v \<noteq> [] \<Longrightarrow> \<exists>m. np_min v = Inr m"
  by (cases "elems v") (simp_all add: np_min_def)

lemma np_max_nonempty: "elems v \<noteq> [] \<Longrightarrow> \<exists>m. np_max v = Inr m"
  by (cases "elems v") (simp_all add: np_max_def)

lemma np_min_empty: "elems v = [] \<Longrightarrow> np_min v = Inl ValueError"
  by (simp add: np_min_def)

lemma np_max_empty: "elems v = [] \<Longrightarrow> np_max v = Inl ValueError"
  by (simp add: np_max_def)

lemma normalized_field_returns: "\<exists>n. normalized_field v lo hi = Inr n"
  by (simp add: normalized_field_def div_scalar_def)

lemma apply_gamma_returns: "g \<noteq> 0 \<Longrightarrow> \<exists>r. apply_gamma pw img g = Inr r"
  by (simp add: apply_gamma_def)

lemma apply_gamma_zero: "apply_gamma pw img 0 = Inl ZeroDivisionError"
  by (simp add: apply_gamma_def)

text \<open>Both paths, once the settings are not the default ones and the reference range
  is known: normalise, run the chain, denormalise (and, for a volume, restore the type).\<close>

lemma apply_adjustments_unfold:
  assumes "(case vo of None \<Rightarrow> original_volume self | Some w \<Rightarrow> Some w) = Some v"
    and "st = (case sto of None \<Rightarrow> settings self | Some s \<Rightarrow> s)"
    and "\<not> is_default st"
    and "(case original_min self of Some m \<Rightarrow> Inr m | None \<Rightarrow> np_min v) = Inr lo"
    and "(case original_max self of Some m \<Rightarrow> Inr m | None \<Rightarrow> np_max v) = Inr hi"
  shows "apply_adjustments pw gf self vo sto =
     (case normalized_field v lo hi of
        Inl e \<Rightarrow> Inl e
      | Inr n \<Rightarrow>
          (case transform_chain pw gf st n of
             Inl e \<Rightarrow> Inl e
           | Inr r \<Rightarrow> Inr (restore_dtype (original_dtype self) (denormalize r lo hi))))"
proof -
  have vol: "(case vo of
              None \<Rightarrow> (case original_volume self of None \<Rightarrow> Inl ValueError | Some v \<Rightarrow> Inr v)
            | Some v \<Rightarrow> Inr v) = (Inr v :: py_error + ndarray)"
    using assms(1) by (cases vo) (auto split: option.splits)
  show ?thesis
    using assms(3)
    by (simp add: apply_adjustments_def vol assms(2)[symmetric] assms(4) assms(5) Let_def
        transform_chain_def denormalize_def split: sum.split)
qed

lemma apply_to_slice_unfold:
  assumes "st = (case sto of None \<Rightarrow> settings self | Some s \<Rightarrow> s)"
    and "\<not> is_default st"
    and "(if original_min self \<noteq> None \<and> original_max self \<noteq> None
          then Inr (the (original_min self), the (original_max self))
          else (case np_min sl of
                  Inl e \<Rightarrow> Inl e
                | Inr lo \<Rightarrow> (case np_max sl of
                              Inl e \<Rightarrow> Inl e
                            | Inr hi \<Rightarrow> Inr (lo, hi)))) = Inr (lo, hi)"
  shows "apply_to_slice pw gf self sl sto =
     (case normalized_field sl lo hi of
        Inl e \<Rightarrow> Inl e
      | Inr n \<Rightarrow>
          (case transform_chain pw gf st n of
             Inl e \<Rightarrow> Inl e
           | Inr r \<Rightarrow> Inr (denormalize r lo hi)))"
  unfolding apply_to_slice_def Let_def assms(1)[symmetric] assms(3)
  using assms(2)
  by (simp add: transform_chain_def denormalize_def split: sum.split)

text \<open>
  C5. With all-default settings (given, or the adjuster's own when none are given)
  \<open>apply_adjustments\<close> returns the volume it was given, or the registered original when
  none was given, with the same element type, shape and values, and \<open>apply_to_slice\<close>
  returns the slice. Neither the library functions nor the cached range enter the
  result, and an empty volume is returned as well: nothing is normalised.
\<close>

theorem default_settings_return_copy:
  "is_default (case sto of None \<Rightarrow> settings self | Some s \<Rightarrow> s) \<Longrightarrow>
     apply_adjustments pw gf self (Some v) sto = Inr v \<and>
     apply_adjustments pw gf (self\<lparr>original_volume := Some v\<rparr>) None sto = Inr v \<and>
     apply_to_slice pw gf self sl sto = Inr sl"
  by (cases sto) (simp_all add: apply_adjustments_def apply_to_slice_def)

theorem default_settings_return_copy_witness:
  "is_default default_settings \<and>
   apply_adjustments pw_powr gf_none init_ImageAdjuster
     (Some \<lparr>dtype = UInt8, shape = [1, 1, 2], elems = [0, 3]\<rparr>) (Some default_settings)
     = Inr \<lparr>dtype = UInt8, shape = [1, 1, 2], elems = [0, 3]\<rparr> \<and>
   apply_adjustments pw_powr gf_none
     (init_ImageAdjuster\<lparr>original_volume := Some \<lparr>dtype = UInt8, shape = [1, 1, 2], elems = [0, 3]\<rparr>\<rparr>)
     None (Some default_settings)
     = Inr \<lparr>dtype = UInt8, shape = [1, 1, 2], elems = [0, 3]\<rparr> \<and>
   apply_to_slice pw_powr gf_none init_ImageAdjuster
     \<lparr>dtype = UInt8, shape = [1, 2], elems = [0, 3]\<rparr> (Some default_settings)
     = Inr \<lparr>dtype = UInt8, shape = [1, 2], elems = [0, 3]\<rparr>"
proof -
  have d: "is_default (case Some default_settings of None \<Rightarrow> settings init_ImageAdjuster | Some s \<Rightarrow> s)"
    by (simp add: is_default_def default_settings_def)
  show ?thesis
    using d default_settings_return_copy [OF d, of pw_powr gf_none
        "\<lparr>dtype = UInt8, shape = [1, 1, 2], elems = [0, 3]\<rparr>"
        "\<lparr>dtype = UInt8, shape = [1, 2], elems = [0, 3]\<rparr>"]
    by simp
qed

lemma transform_chain_returns: "gamma st \<noteq> 0 \<Longrightarrow> \<exists>r. transform_chain pw gf st x = Inr r"
  by (simp add: transform_chain_def apply_gamma_def)

lemma transform_chain_gamma_zero: "gamma st = 0 \<Longrightarrow> transform_chain pw gf st x = Inl ZeroDivisionError"
  by (simp add: transform_chain_def apply_gamma_def)

text \<open>
  C4 as the code has it. Without a volume argument and without a registered original
  \<open>apply_adjustments\<close> raises \<^verbatim>\<open>ValueError\<close>, whatever the settings. With a volume
  available it returns that volume for default settings; for other settings it raises
  \<^verbatim>\<open>ValueError\<close> when no range is cached and the volume is empty, raises
  \<^verbatim>\<open>ZeroDivisionError\<close> when \<open>gamma\<close> is zero, and returns a result otherwise.
\<close>

theorem apply_adjustments_raises_exactly:
  "(original_volume self = None \<longrightarrow> apply_adjustments pw gf self None sto = Inl ValueError) \<and>
   ((case vo of None \<Rightarrow> original_volume self | Some w \<Rightarrow> Some w) = Some v \<and>
    st = (case sto of None \<Rightarrow> settings self | Some s \<Rightarrow> s) \<longrightarrow>
      (is_default st \<longrightarrow> apply_adjustments pw gf self vo sto = Inr v) \<and>
      (\<not> is_default st \<and> (original_min self = None \<or> original_max self = None) \<and> elems v = []
         \<longrightarrow> apply_adjustments pw gf self vo sto = Inl ValueError) \<and>
      (\<not> is_default st \<and> (original_min self \<noteq> None \<and> original_max self \<noteq> None \<or> elems v \<noteq> [])
         \<and> gamma st = 0
         \<longrightarrow> apply_adjustments pw gf self vo sto = Inl ZeroDivisionError) \<and>
      (\<not> is_default st \<and> (original_min self \<noteq> None \<and> original_max self \<noteq> None \<or> elems v \<noteq> [])
         \<and> gamma st \<noteq> 0
         \<longrightarrow> (\<exists>r. apply_adjustments pw gf self vo sto = Inr r)))"
proof -
  have none: "apply_adjustments pw gf self None sto = Inl ValueError"
    if "original_volume self = None"
    using that by (simp add: apply_adjustments_def)
  have rest: "(is_default st \<longrightarrow> apply_adjustments pw gf self vo sto = Inr v) \<and>
      (\<not> is_default st \<and> (original_min self = None \<or> original_max self = None) \<and> elems v = []
         \<longrightarrow> apply_adjustments pw gf self vo sto = Inl ValueError) \<and>
      (\<not> is_default st \<and> (original_min self \<noteq> None \<and> original_max self \<noteq> None \<or> elems v \<noteq> [])
         \<and> gamma st = 0
         \<longrightarrow> apply_adjustments pw gf self vo sto = Inl ZeroDivisionError) \<and>
      (\<not> is_default st \<and> (original_min self \<noteq> None \<and> original_max self \<noteq> None \<or> elems v \<noteq> [])
         \<and> gamma st \<noteq> 0
         \<longrightarrow> (\<exists>r. apply_adjustments pw gf self vo sto = Inr r))"
    if avail: "(case vo of None \<Rightarrow> original_volume self | Some w \<Rightarrow> Some w) = Some v"
      and st: "st = (case sto of None \<Rightarrow> settings self | Some s \<Rightarrow> s)"
  proof -
    have vol: "(case vo of
              None \<Rightarrow> (case original_volume self of None \<Rightarrow> Inl ValueError | Some v \<Rightarrow> Inr v)
            | Some v \<Rightarrow> Inr v) = (Inr v :: py_error + ndarray)"
      using avail by (cases vo) (auto split: option.splits)
    have c1: "apply_adjustments pw gf self vo sto = Inr v" if "is_default st"
      using that by (simp add: apply_adjustments_def vol st)
    have c2: "apply_adjustments pw gf self vo sto = Inl ValueError"
      if nd: "\<not> is_default st" and r: "original_min self = None \<or> original_max self = None"
        and e: "elems v = []"
    proof -
      have "(case original_min self of Some m \<Rightarrow> Inr m | None \<Rightarrow> np_min v) = Inl ValueError
        \<or> (\<exists>lo. (case original_min self of Some m \<Rightarrow> Inr m | None \<Rightarrow> np_min v) = Inr lo
             \<and> (case original_max self of Some m \<Rightarrow> Inr m | None \<Rightarrow> np_max v) = Inl ValueError)"
        using r e by (cases "original_min self"; cases "original_max self")
          (simp_all add: np_min_empty np_max_empty)
      then show ?thesis
        using nd by (auto simp add: apply_adjustments_def vol st[symmetric])
    qed
    have c34: "apply_adjustments pw gf self vo sto = Inl ZeroDivisionError \<and> gamma st = 0
         \<or> (\<exists>r. apply_adjustments pw gf self vo sto = Inr r) \<and> gamma st \<noteq> 0"
      if nd: "\<not> is_default st"
        and r: "original_min self \<noteq> None \<and> original_max self \<noteq> None \<or> elems v \<noteq> []"
    proof -
      obtain lo where lo: "(case original_min self of Some m \<Rightarrow> Inr m | None \<Rightarrow> np_min v) = Inr lo"
        using r np_min_nonempty [of v] by (cases "original_min self") auto
      obtain hi where hi: "(case original_max self of Some m \<Rightarrow> Inr m | None \<Rightarrow> np_max v) = Inr hi"
        using r np_max_nonempty [of v] by (cases "original_max self") auto
      obtain n where n: "normalized_field v lo hi = Inr n"
        using normalized_field_returns by blast
      note u = apply_adjustments_unfold [OF avail st nd lo hi, of pw gf]
      show ?thesis
      proof (cases "gamma st = 0")
        case True
        then show ?thesis
          using u by (simp add: n transform_chain_gamma_zero)
      next
        case False
        then obtain y where "transform_chain pw gf st n = Inr y"
          using transform_chain_returns by blast
        then show ?thesis
          using u False by (simp add: n)
      qed
    qed
    show ?thesis
      using c1 c2 c34 by blast
  qed
  show ?thesis
    using none rest by blast
qed

theorem apply_adjustments_raises_exactly_witness:
  "apply_adjustments pw_powr gf_none init_ImageAdjuster None None = Inl ValueError \<and>
   apply_adjustments pw_powr gf_none init_ImageAdjuster
     (Some \<lparr>dtype = UInt8, shape = [1, 1, 2], elems = [0, 3]\<rparr>)
     (Some default_settings) = Inr \<lparr>dtype = UInt8, shape = [1, 1, 2], elems = [0, 3]\<rparr> \<and>
   apply_adjustments pw_powr gf_none init_ImageAdjuster
     (Some \<lparr>dtype = UInt8, shape = [0, 1, 2], elems = []\<rparr>)
     (Some (default_settings\<lparr>gamma := 2\<rparr>)) = Inl ValueError \<and>
   apply_adjustments pw_powr gf_none init_ImageAdjuster
     (Some \<lparr>dtype = UInt8, shape = [1, 1, 2], elems = [0, 3]\<rparr>)
     (Some (default_settings\<lparr>gamma := 0\<rparr>)) = Inl ZeroDivisionError \<and>
   (\<exists>r. apply_adjustments pw_powr gf_none init_ImageAdjuster
     (Some \<lparr>dtype = UInt8, shape = [1, 1, 2], elems = [0, 3]\<rparr>)
     (Some (default_settings\<lparr>gamma := 2\<rparr>)) = Inr r)"
  using apply_adjustments_raises_exactly [of init_ImageAdjuster pw_powr gf_none None None
      "\<lparr>dtype = UInt8, shape = [1, 1, 2], elems = [0, 3]\<rparr>" "default_settings"]
    apply_adjustments_raises_exactly [of init_ImageAdjuster pw_powr gf_none
      "Some default_settings"
      "Some \<lparr>dtype = UInt8, shape = [1, 1, 2], elems = [0, 3]\<rparr>"
      "\<lparr>dtype = UInt8, shape = [1, 1, 2], elems = [0, 3]\<rparr>" "default_settings"]
    apply_adjustments_raises_exactly [of init_ImageAdjuster pw_powr gf_none
      "Some (default_settings\<lparr>gamma := 2\<rparr>)"
      "Some \<lparr>dtype = UInt8, shape = [0, 1, 2], elems = []\<rparr>"
      "\<lparr>dtype = UInt8, shape = [0, 1, 2], elems = []\<rparr>" "default_settings\<lparr>gamma := 2\<rparr>"]
    apply_adjustments_raises_exactly [of init_ImageAdjuster pw_powr gf_none
      "Some (default_settings\<lparr>gamma := 0\<rparr>)"
      "Some \<lparr>dtype = UInt8, shape = [1, 1, 2], elems = [0, 3]\<rparr>"
      "\<lparr>dtype = UInt8, shape = [1, 1, 2], elems = [0, 3]\<rparr>" "default_settings\<lparr>gamma := 0\<rparr>"]
    apply_adjustments_raises_exactly [of init_ImageAdjuster pw_powr gf_none
      "Some (default_settings\<lparr>gamma := 2\<rparr>)"
      "Some \<lparr>dtype = UInt8, shape = [1, 1, 2], elems = [0, 3]\<rparr>"
      "\<lparr>dtype = UInt8, shape = [1, 1, 2], elems = [0, 3]\<rparr>" "default_settings\<lparr>gamma := 2\<rparr>"]
  by (simp add: init_ImageAdjuster_def default_settings_def is_default_def)

text \<open>C4 as stated fails: a volume is registered, \<open>gamma\<close> is zero, and the call raises.\<close>

theorem never_raises_counterexample:
  "apply_adjustments pw_powr gf_none
     (fst (set_original_volume init_ImageAdjuster \<lparr>dtype = UInt8, shape = [1, 1, 2], elems = [0, 3]\<rparr>))
     None (Some \<lparr>brightness = 0, contrast = 1, gamma = 0, sharpness = 0, invert = False\<rparr>)
   = Inl ZeroDivisionError"
  by (simp add: apply_adjustments_def set_original_volume_def init_ImageAdjuster_def is_default_def
      np_min_def np_max_def normalized_field_def div_scalar_def apply_gamma_def Let_def)

subsection \<open>Element types and shapes along the pipeline\<close>

lemma map_elems_simps [simp]:
  "dtype (map_elems f dt a) = dt"
  "shape (map_elems f dt a) = shape a"
  "elems (map_elems f dt a) = map f (elems a)"
  by (simp_all add: map_elems_def)

lemma float_result_floating [simp]: "\<not> issubdtype_integer dt \<Longrightarrow> float_result dt = dt"
  by (simp add: float_result_def)

lemma float_result_not_integer [simp]: "\<not> issubdtype_integer (float_result dt)"
  by (simp add: float_result_def)

lemma normalized_field_Float32:
  "normalized_field v lo hi = Inr n \<Longrightarrow>
     dtype n = Float32 \<and> shape n = shape v \<and> length (elems n) = length (elems v)"
  by (auto simp add: normalized_field_def zeros_like_def div_scalar_def sub_scalar_def astype_def
      split: if_splits)

lemma apply_brightness_dtype:
  "\<not> issubdtype_integer (dtype x) \<Longrightarrow> dtype (apply_brightness x b) = dtype x"
  by (simp add: apply_brightness_def np_clip_def add_scalar_def)

lemma apply_contrast_dtype:
  "\<not> issubdtype_integer (dtype x) \<Longrightarrow> dtype (apply_contrast x c) = dtype x"
  by (simp add: apply_contrast_def np_clip_def add_scalar_def mul_scalar_def sub_scalar_def)

lemma apply_gamma_dtype:
  "\<not> issubdtype_integer (dtype x) \<Longrightarrow> apply_gamma pw x g = Inr y \<Longrightarrow> dtype y = dtype x"
  by (auto simp add: apply_gamma_def np_clip_def np_power_def split: if_splits)

lemma apply_sharpness_dtype: "dtype (apply_sharpness gf x s) = dtype x"
  by (simp add: apply_sharpness_def np_clip_def add_array_def Let_def)

lemma apply_invert_dtype:
  "\<not> issubdtype_integer (dtype x) \<Longrightarrow> dtype (apply_invert x i) = dtype x"
  by (simp add: apply_invert_def rsub_scalar_def)

lemma transform_chain_dtype:
  assumes "\<not> issubdtype_integer (dtype x)" and "transform_chain pw gf st x = Inr r"
  shows "dtype r = dtype x"
proof -
  let ?c = "apply_contrast (apply_brightness x (brightness st)) (contrast st)"
  have c: "dtype ?c = dtype x"
    using assms(1) by (simp add: apply_contrast_dtype apply_brightness_dtype)
  obtain y where y: "apply_gamma pw ?c (gamma st) = Inr y"
    and r: "r = apply_invert (apply_sharpness gf y (sharpness st)) (invert st)"
    using assms(2) by (auto simp add: transform_chain_def split: sum.splits)
  have "dtype y = dtype x"
    using apply_gamma_dtype [OF _ y] c assms(1) by simp
  then show ?thesis
    using assms(1) by (simp add: r apply_invert_dtype apply_sharpness_dtype)
qed

lemma denormalize_dtype:
  "\<not> issubdtype_integer (dtype x) \<Longrightarrow> dtype (denormalize x lo hi) = dtype x"
  by (simp add: denormalize_def add_scalar_def mul_scalar_def)

lemma slice_range_returns:
  "elems sl \<noteq> [] \<Longrightarrow>
   \<exists>lo hi. (if original_min self \<noteq> None \<and> original_max self \<noteq> None
          then Inr (the (original_min self), the (original_max self))
          else (case np_min sl of
                  Inl e \<Rightarrow> Inl e
                | Inr lo \<Rightarrow> (case np_max sl of
                              Inl e \<Rightarrow> Inl e
                            | Inr hi \<Rightarrow> Inr (lo, hi)))) = (Inr (lo, hi) :: py_error + real \<times> real)"
  using np_min_nonempty [of sl] np_max_nonempty [of sl] by auto

lemma apply_to_slice_cases:
  assumes "st = (case sto of None \<Rightarrow> settings self | Some s \<Rightarrow> s)" and "\<not> is_default st"
  shows "apply_to_slice pw gf self sl sto = Inl ValueError \<or>
     (\<exists>lo hi n. normalized_field sl lo hi = Inr n \<and>
        apply_to_slice pw gf self sl sto =
          (case transform_chain pw gf st n of
             Inl e \<Rightarrow> Inl e
           | Inr r \<Rightarrow> Inr (denormalize r lo hi)))"
proof -
  let ?rng = "(if original_min self \<noteq> None \<and> original_max self \<noteq> None
          then Inr (the (original_min self), the (original_max self))
          else (case np_min sl of
                  Inl e \<Rightarrow> Inl e
                | Inr lo \<Rightarrow> (case np_max sl of
                              Inl e \<Rightarrow> Inl e
                            | Inr hi \<Rightarrow> Inr (lo, hi)))) :: py_error + real \<times> real"
  show ?thesis
  proof (cases ?rng)
    case (Inl e)
    have "e = ValueError"
      using Inl by (cases "elems sl") (auto simp add: np_min_def np_max_def split: if_splits)
    then have "apply_to_slice pw gf self sl sto = Inl ValueError"
      unfolding apply_to_slice_def Let_def assms(1)[symmetric] Inl
      using assms(2) by simp
    then show ?thesis by simp
  next
    case (Inr p)
    obtain lo hi where p: "p = (lo, hi)" by (cases p)
    obtain n where n: "normalized_field sl lo hi = Inr n"
      using normalized_field_returns by blast
    show ?thesis
      using apply_to_slice_unfold [OF assms(1) assms(2) Inr [unfolded p], of pw gf] n
      by auto
  qed
qed

lemma apply_to_slice_dtype:
  assumes st: "st = (case sto of None \<Rightarrow> settings self | Some s \<Rightarrow> s)"
    and nd: "\<not> is_default st" and res: "apply_to_slice pw gf self sl sto = Inr r"
  shows "dtype r = Float32"
proof -
  obtain lo hi n where n: "normalized_field sl lo hi = Inr n"
    and eq: "apply_to_slice pw gf self sl sto =
          (case transform_chain pw gf st n of
             Inl e \<Rightarrow> Inl e
           | Inr r \<Rightarrow> Inr (denormalize r lo hi))"
    using apply_to_slice_cases [OF st nd, of pw gf sl] res by auto
  obtain c where c: "transform_chain pw gf st n = Inr c" and r: "r = denormalize c lo hi"
    using eq res by (cases "transform_chain pw gf st n") auto
  have "dtype n = Float32"
    using normalized_field_Float32 [OF n] by simp
  then have "dtype c = Float32"
    using transform_chain_dtype [OF _ c] by simp
  then show ?thesis
    by (simp add: r denormalize_dtype)
qed

subsection \<open>A registered 8-bit volume, evaluated\<close>

lemmas array_defs =
  map_elems_def np_clip_def zeros_like_def add_scalar_def sub_scalar_def mul_scalar_def
  rsub_scalar_def rmul_scalar_def div_scalar_def sub_array_def add_array_def np_power_def
  gaussian_filter_def astype_def cast_elem_def float_result_def np_min_def np_max_def

lemmas transform_defs =
  apply_brightness_def apply_contrast_def apply_gamma_def apply_sharpness_def apply_invert_def
  normalized_field_def restore_dtype_def

lemma registered_sample:
  "set_original_volume init_ImageAdjuster \<lparr>dtype = UInt8, shape = [1, 1, 2], elems = [0, 3]\<rparr> =
     (\<lparr>settings = default_settings,
       original_volume = Some \<lparr>dtype = UInt8, shape = [1, 1, 2], elems = [0, 3]\<rparr>,
       original_dtype = Some UInt8, original_min = Some 0, original_max = Some 3\<rparr>, None)"
  by (simp add: set_original_volume_def init_ImageAdjuster_def np_min_def np_max_def)

lemma slice_sample:
  "apply_to_slice pw gf
     \<lparr>settings = default_settings,
       original_volume = Some \<lparr>dtype = UInt8, shape = [1, 1, 2], elems = [0, 3]\<rparr>,
       original_dtype = Some UInt8, original_min = Some 0, original_max = Some 3\<rparr>
     \<lparr>dtype = UInt8, shape = [1, 2], elems = [0, 3]\<rparr>
     (Some \<lparr>brightness = 0, contrast = 1/2, gamma = 1, sharpness = 0, invert = False\<rparr>)
   = Inr \<lparr>dtype = Float32, shape = [1, 2], elems = [3/4, 9/4]\<rparr>"
  by (simp add: apply_to_slice_def is_default_def Let_def transform_defs array_defs)

lemma volume_sample:
  "apply_adjustments pw gf
     \<lparr>settings = default_settings,
       original_volume = Some \<lparr>dtype = UInt8, shape = [1, 1, 2], elems = [0, 3]\<rparr>,
       original_dtype = Some UInt8, original_min = Some 0, original_max = Some 3\<rparr>
     None
     (Some \<lparr>brightness = 0, contrast = 1/2, gamma = 1, sharpness = 0, invert = False\<rparr>)
   = Inr \<lparr>dtype = UInt8, shape = [1, 1, 2], elems = [0, 2]\<rparr>"
  by (simp add: apply_adjustments_def is_default_def Let_def transform_defs array_defs
      trunc_real_def wrap_int_def)

text \<open>
  C10. With settings that are not the default ones, whatever \<open>apply_to_slice\<close> returns
  has the element type \<^verbatim>\<open>float32\<close>: the denormalised field is returned as it is, and is
  never cast to the cached element type, so the type differs from every integer type an
  original may have been registered with. It does return when \<open>gamma\<close> is not zero and
  the slice is not empty. With default settings the slice itself comes back, element
  type included.
\<close>

theorem apply_to_slice_stays_float32:
  "st = (case sto of None \<Rightarrow> settings self | Some s \<Rightarrow> s) \<Longrightarrow>
   (is_default st \<longrightarrow> apply_to_slice pw gf self sl sto = Inr sl) \<and>
   (\<not> is_default st \<and> apply_to_slice pw gf self sl sto = Inr r \<longrightarrow>
      dtype r = Float32 \<and>
      (\<forall>dt. original_dtype self = Some dt \<and> issubdtype_integer dt \<longrightarrow> dtype r \<noteq> dt)) \<and>
   (\<not> is_default st \<and> gamma st \<noteq> 0 \<and> elems sl \<noteq> [] \<longrightarrow>
      (\<exists>r'. apply_to_slice pw gf self sl sto = Inr r'))"
proof (intro conjI impI)
  assume st: "st = (case sto of None \<Rightarrow> settings self | Some s \<Rightarrow> s)"
  {
    assume "is_default st"
    then show "apply_to_slice pw gf self sl sto = Inr sl"
      by (simp add: apply_to_slice_def st)
  }
  {
    assume a: "\<not> is_default st \<and> apply_to_slice pw gf self sl sto = Inr r"
    then obtain lo hi n where n: "normalized_field sl lo hi = Inr n"
      and eq: "apply_to_slice pw gf self sl sto =
          (case transform_chain pw gf st n of
             Inl e \<Rightarrow> Inl e
           | Inr r \<Rightarrow> Inr (denormalize r lo hi))"
      using apply_to_slice_cases [OF st, of pw gf sl] by auto
    obtain c where c: "transform_chain pw gf st n = Inr c" and r: "r = denormalize c lo hi"
      using eq a by (cases "transform_chain pw gf st n") auto
    have "dtype n = Float32"
      using normalized_field_Float32 [OF n] by simp
    then have "dtype c = Float32"
      using transform_chain_dtype [OF _ c] by simp
    then show f: "dtype r = Float32"
      by (simp add: r denormalize_dtype)
    show "\<forall>dt. original_dtype self = Some dt \<and> issubdtype_integer dt \<longrightarrow> dtype r \<noteq> dt"
      using f by auto
  }
  {
    assume a: "\<not> is_default st \<and> gamma st \<noteq> 0 \<and> elems sl \<noteq> []"
    obtain lo hi where rng: "(if original_min self \<noteq> None \<and> original_max self \<noteq> None
          then Inr (the (original_min self), the (original_max self))
          else (case np_min sl of
                  Inl e \<Rightarrow> Inl e
                | Inr lo \<Rightarrow> (case np_max sl of
                              Inl e \<Rightarrow> Inl e
                            | Inr hi \<Rightarrow> Inr (lo, hi)))) = (Inr (lo, hi) :: py_error + real \<times> real)"
      using slice_range_returns a by blast
    obtain n where n: "normalized_field sl lo hi = Inr n"
      using normalized_field_returns by blast
    obtain c where c: "transform_chain pw gf st n = Inr c"
      using transform_chain_returns a by blast
    show "\<exists>r'. apply_to_slice pw gf self sl sto = Inr r'"
      using apply_to_slice_unfold [OF st _ rng, of pw gf] a by (simp add: n c)
  }
qed

theorem apply_to_slice_stays_float32_witness:
  "\<not> is_default \<lparr>brightness = 0, contrast = 1/2, gamma = 1, sharpness = 0, invert = False\<rparr> \<and>
   apply_to_slice pw_powr gf_none
     (fst (set_original_volume init_ImageAdjuster \<lparr>dtype = UInt8, shape = [1, 1, 2], elems = [0, 3]\<rparr>))
     \<lparr>dtype = UInt8, shape = [1, 2], elems = [0, 3]\<rparr>
     (Some \<lparr>brightness = 0, contrast = 1/2, gamma = 1, sharpness = 0, invert = False\<rparr>)
     = Inr \<lparr>dtype = Float32, shape = [1, 2], elems = [3/4, 9/4]\<rparr> \<and>
   original_dtype (fst (set_original_volume init_ImageAdjuster
      \<lparr>dtype = UInt8, shape = [1, 1, 2], elems = [0, 3]\<rparr>)) = Some UInt8 \<and>
   dtype \<lparr>dtype = Float32, shape = [1, 2], elems = [3/4, 9/4]\<rparr> \<noteq> UInt8 \<and>
   apply_to_slice pw_powr gf_none
     (fst (set_original_volume init_ImageAdjuster \<lparr>dtype = UInt8, shape = [1, 1, 2], elems = [0, 3]\<rparr>))
     \<lparr>dtype = UInt8, shape = [1, 2], elems = [0, 3]\<rparr> None
     = Inr \<lparr>dtype = UInt8, shape = [1, 2], elems = [0, 3]\<rparr>"
proof -
  let ?self = "fst (set_original_volume init_ImageAdjuster \<lparr>dtype = UInt8, shape = [1, 1, 2], elems = [0, 3]\<rparr>)"
  let ?sl = "\<lparr>dtype = UInt8, shape = [1, 2], elems = [0, 3]\<rparr>"
  let ?st = "\<lparr>brightness = 0, contrast = 1/2, gamma = 1, sharpness = 0, invert = False\<rparr>"
  have nd: "\<not> is_default ?st"
    by (simp add: is_default_def)
  have ev: "apply_to_slice pw_powr gf_none ?self ?sl (Some ?st)
     = Inr \<lparr>dtype = Float32, shape = [1, 2], elems = [3/4, 9/4]\<rparr>"
    unfolding registered_sample fst_conv by (rule slice_sample)
  have dt: "original_dtype ?self = Some UInt8"
    unfolding registered_sample by simp
  have own: "default_settings = (case None of None \<Rightarrow> settings ?self | Some s \<Rightarrow> s)"
    unfolding registered_sample by simp
  have d: "is_default default_settings"
    by (simp add: is_default_def default_settings_def)
  have c1: "dtype \<lparr>dtype = Float32, shape = [1, 2], elems = [3/4, 9/4]\<rparr> \<noteq> UInt8"
    using nd ev dt apply_to_slice_stays_float32 [where pw = pw_powr and gf = gf_none
      and self = ?self and sl = ?sl and sto = "Some ?st" and st = ?st
      and r = "\<lparr>dtype = Float32, shape = [1, 2], elems = [3/4, 9/4]\<rparr>"]
    by auto
  have c2: "apply_to_slice pw_powr gf_none ?self ?sl None = Inr ?sl"
    using d apply_to_slice_stays_float32 [OF own, where pw = pw_powr and gf = gf_none and sl = ?sl]
    by blast
  show ?thesis
    using nd ev dt c1 c2 by (intro conjI)
qed

subsection \<open>The degenerate range\<close>

lemma np_min_error: "np_min v = Inl e \<Longrightarrow> e = ValueError"
  by (cases "elems v") (simp_all add: np_min_def)

lemma np_max_error: "np_max v = Inl e \<Longrightarrow> e = ValueError"
  by (cases "elems v") (simp_all add: np_max_def)

lemma normalized_field_no_error: "normalized_field v lo hi \<noteq> Inl e"
  by (simp add: normalized_field_def div_scalar_def)

lemma transform_chain_error: "transform_chain pw gf st x = Inl e \<Longrightarrow> e = ZeroDivisionError"
  by (auto simp add: transform_chain_def apply_gamma_def split: sum.splits if_splits)

lemma apply_adjustments_no_volume:
  "(case vo of None \<Rightarrow> original_volume self | Some w \<Rightarrow> Some w) = None \<Longrightarrow>
   apply_adjustments pw gf self vo sto = Inl ValueError"
  by (cases vo) (simp_all add: apply_adjustments_def)

lemma apply_adjustments_default:
  assumes "(case vo of None \<Rightarrow> original_volume self | Some w \<Rightarrow> Some w) = Some v"
    and "is_default (case sto of None \<Rightarrow> settings self | Some s \<Rightarrow> s)"
  shows "apply_adjustments pw gf self vo sto = Inr v"
  using assms by (cases vo) (simp_all add: apply_adjustments_def)

lemma apply_adjustments_cases:
  assumes avail: "(case vo of None \<Rightarrow> original_volume self | Some w \<Rightarrow> Some w) = Some v"
    and st: "st = (case sto of None \<Rightarrow> settings self | Some s \<Rightarrow> s)"
    and nd: "\<not> is_default st"
  shows "apply_adjustments pw gf self vo sto = Inl ValueError \<or>
     (\<exists>lo hi n.
        (case original_min self of Some m \<Rightarrow> Inr m | None \<Rightarrow> np_min v) = Inr lo \<and>
        (case original_max self of Some m \<Rightarrow> Inr m | None \<Rightarrow> np_max v) = Inr hi \<and>
        normalized_field v lo hi = Inr n \<and>
        apply_adjustments pw gf self vo sto =
          (case transform_chain pw gf st n of
             Inl e \<Rightarrow> Inl e
           | Inr r \<Rightarrow> Inr (restore_dtype (original_dtype self) (denormalize r lo hi))))"
proof -
  have vol: "(case vo of
              None \<Rightarrow> (case original_volume self of None \<Rightarrow> Inl ValueError | Some v \<Rightarrow> Inr v)
            | Some v \<Rightarrow> Inr v) = (Inr v :: py_error + ndarray)"
    using avail by (cases vo) (auto split: option.splits)
  show ?thesis
  proof (cases "case original_min self of Some m \<Rightarrow> Inr m | None \<Rightarrow> np_min v")
    case (Inl e)
    then have "e = ValueError"
      using np_min_error by (cases "original_min self") auto
    then show ?thesis
      using nd Inl by (simp add: apply_adjustments_def vol st[symmetric])
  next
    case lo: (Inr lo)
    show ?thesis
    proof (cases "case original_max self of Some m \<Rightarrow> Inr m | None \<Rightarrow> np_max v")
      case (Inl e)
      then have "e = ValueError"
        using np_max_error by (cases "original_max self") auto
      then show ?thesis
        using nd Inl lo by (simp add: apply_adjustments_def vol st[symmetric])
    next
      case hi: (Inr hi)
      obtain n where n: "normalized_field v lo hi = Inr n"
        using normalized_field_returns by blast
      show ?thesis
        using apply_adjustments_unfold [OF avail st nd lo hi, of pw gf] lo hi n by auto
    qed
  qed
qed

lemma apply_adjustments_finite: "apply_adjustments pw gf self vo sto \<noteq> Inl NonFiniteValue"
proof (cases "case vo of None \<Rightarrow> original_volume self | Some w \<Rightarrow> Some w")
  case None
  then show ?thesis by (simp add: apply_adjustments_no_volume)
next
  case (Some v)
  show ?thesis
  proof (cases "is_default (case sto of None \<Rightarrow> settings self | Some s \<Rightarrow> s)")
    case True
    then show ?thesis by (simp add: apply_adjustments_default [OF Some])
  next
    case False
    then show ?thesis
      using apply_adjustments_cases [OF Some refl False, of pw gf] transform_chain_error
      by (fastforce split: sum.splits)
  qed
qed

lemma apply_to_slice_finite: "apply_to_slice pw gf self sl sto \<noteq> Inl NonFiniteValue"
proof (cases "is_default (case sto of None \<Rightarrow> settings self | Some s \<Rightarrow> s)")
  case True
  then show ?thesis by (simp add: apply_to_slice_def)
next
  case False
  then show ?thesis
    using apply_to_slice_cases [OF refl False, of pw gf sl] transform_chain_error
    by (fastforce split: sum.splits)
qed

lemma zeros_like_all_zero:
  "shape (zeros_like v dt) = shape v \<and> length (elems (zeros_like v dt)) = length (elems v) \<and>
   list_all (\<lambda>x. x = 0) (elems (zeros_like v dt))"
  by (simp add: zeros_like_def list_all_iff)

text \<open>
  C7. For a reference range with \<open>max = min\<close> the normalised field is the all-zero
  \<^verbatim>\<open>float32\<close> field of the shape and length of the input, and this is the field both
  paths feed to the transform chain. No division by zero happens on any input: the
  divisor of the other branch is \<open>v_max - v_min\<close> with \<open>v_max \<noteq> v_min\<close>, so neither
  the block nor either path ever yields the non-finite outcome.
\<close>

theorem degenerate_range_is_safe:
  "normalized_field v m m = Inr (zeros_like v Float32) \<and>
   shape (zeros_like v Float32) = shape v \<and>
   length (elems (zeros_like v Float32)) = length (elems v) \<and>
   list_all (\<lambda>x. x = 0) (elems (zeros_like v Float32)) \<and>
   normalized_field v lo hi \<noteq> Inl NonFiniteValue \<and>
   apply_adjustments pw gf self vo sto \<noteq> Inl NonFiniteValue \<and>
   apply_to_slice pw gf self sl sto \<noteq> Inl NonFiniteValue \<and>
   ((case vo of None \<Rightarrow> original_volume self | Some w \<Rightarrow> Some w) = Some v \<and>
    st = (case sto of None \<Rightarrow> settings self | Some s \<Rightarrow> s) \<and> \<not> is_default st \<and>
    (case original_min self of Some m \<Rightarrow> Inr m | None \<Rightarrow> np_min v) = Inr m \<and>
    (case original_max self of Some m \<Rightarrow> Inr m | None \<Rightarrow> np_max v) = Inr m
    \<longrightarrow> apply_adjustments pw gf self vo sto =
          (case transform_chain pw gf st (zeros_like v Float32) of
             Inl e \<Rightarrow> Inl e
           | Inr r \<Rightarrow> Inr (restore_dtype (original_dtype self) (denormalize r m m)))) \<and>
   (st = (case sto of None \<Rightarrow> settings self | Some s \<Rightarrow> s) \<and> \<not> is_default st \<and>
    (if original_min self \<noteq> None \<and> original_max self \<noteq> None
     then Inr (the (original_min self), the (original_max self))
     else (case np_min sl of
             Inl e \<Rightarrow> Inl e
           | Inr lo \<Rightarrow> (case np_max sl of
                         Inl e \<Rightarrow> Inl e
                       | Inr hi \<Rightarrow> Inr (lo, hi)))) = Inr (m, m)
    \<longrightarrow> apply_to_slice pw gf self sl sto =
          (case transform_chain pw gf st (zeros_like sl Float32) of
             Inl e \<Rightarrow> Inl e
           | Inr r \<Rightarrow> Inr (denormalize r m m)))"
proof -
  have z: "normalized_field w m m = Inr (zeros_like w Float32)" for w
    by (simp add: normalized_field_def)
  have vol: "apply_adjustments pw gf self vo sto =
          (case transform_chain pw gf st (zeros_like v Float32) of
             Inl e \<Rightarrow> Inl e
           | Inr r \<Rightarrow> Inr (restore_dtype (original_dtype self) (denormalize r m m)))"
    if "(case vo of None \<Rightarrow> original_volume self | Some w \<Rightarrow> Some w) = Some v"
      and "st = (case sto of None \<Rightarrow> settings self | Some s \<Rightarrow> s)" and "\<not> is_default st"
      and "(case original_min self of Some m \<Rightarrow> Inr m | None \<Rightarrow> np_min v) = Inr m"
      and "(case original_max self of Some m \<Rightarrow> Inr m | None \<Rightarrow> np_max v) = Inr m"
    using apply_adjustments_unfold [OF that, of pw gf] by (simp add: z)
  have slc: "apply_to_slice pw gf self sl sto =
          (case transform_chain pw gf st (zeros_like sl Float32) of
             Inl e \<Rightarrow> Inl e
           | Inr r \<Rightarrow> Inr (denormalize r m m))"
    if "st = (case sto of None \<Rightarrow> settings self | Some s \<Rightarrow> s)" and "\<not> is_default st"
      and "(if original_min self \<noteq> None \<and> original_max self \<noteq> None
     then Inr (the (original_min self), the (original_max self))
     else (case np_min sl of
             Inl e \<Rightarrow> Inl e
           | Inr lo \<Rightarrow> (case np_max sl of
                         Inl e \<Rightarrow> Inl e
                       | Inr hi \<Rightarrow> Inr (lo, hi)))) = Inr (m, m)"
    using apply_to_slice_unfold [OF that, of pw gf] by (simp add: z)
  show ?thesis
    using zeros_like_all_zero [of v Float32] z [of v] normalized_field_no_error [of v lo hi]
      apply_adjustments_finite [of pw gf self vo sto] apply_to_slice_finite [of pw gf self sl sto]
      vol slc
    by blast
qed

lemma constant_sample:
  "set_original_volume init_ImageAdjuster \<lparr>dtype = UInt8, shape = [1, 1, 2], elems = [5, 5]\<rparr> =
     (\<lparr>settings = default_settings,
       original_volume = Some \<lparr>dtype = UInt8, shape = [1, 1, 2], elems = [5, 5]\<rparr>,
       original_dtype = Some UInt8, original_min = Some 5, original_max = Some 5\<rparr>, None)"
  by (simp add: set_original_volume_def init_ImageAdjuster_def np_min_def np_max_def)

theorem degenerate_range_is_safe_witness:
  "apply_adjustments pw_powr gf_none
     (fst (set_original_volume init_ImageAdjuster \<lparr>dtype = UInt8, shape = [1, 1, 2], elems = [5, 5]\<rparr>))
     None (Some \<lparr>brightness = 10, contrast = 1, gamma = 1, sharpness = 0, invert = False\<rparr>)
   = Inr \<lparr>dtype = UInt8, shape = [1, 1, 2], elems = [5, 5]\<rparr> \<and>
   apply_to_slice pw_powr gf_none
     (fst (set_original_volume init_ImageAdjuster \<lparr>dtype = UInt8, shape = [1, 1, 2], elems = [5, 5]\<rparr>))
     \<lparr>dtype = UInt8, shape = [1, 2], elems = [5, 5]\<rparr>
     (Some \<lparr>brightness = 10, contrast = 1, gamma = 1, sharpness = 0, invert = False\<rparr>)
   = Inr \<lparr>dtype = Float32, shape = [1, 2], elems = [5, 5]\<rparr>"
proof -
  let ?self = "\<lparr>settings = default_settings,
       original_volume = Some \<lparr>dtype = UInt8, shape = [1, 1, 2], elems = [5, 5]\<rparr>,
       original_dtype = Some UInt8, original_min = Some 5, original_max = Some 5\<rparr>"
  let ?st = "\<lparr>brightness = 10, contrast = 1, gamma = 1, sharpness = 0, invert = False\<rparr>"
  note t = degenerate_range_is_safe [where pw = pw_powr and gf = gf_none and m = 5
      and lo = 0 and hi = 0 and self = ?self
      and vo = None and v = "\<lparr>dtype = UInt8, shape = [1, 1, 2], elems = [5, 5]\<rparr>"
      and sl = "\<lparr>dtype = UInt8, shape = [1, 2], elems = [5, 5]\<rparr>"
      and sto = "Some ?st" and st = ?st]
  have nd: "\<not> is_default ?st"
    by (simp add: is_default_def)
  have e1: "apply_adjustments pw_powr gf_none ?self None (Some ?st) =
      (case transform_chain pw_powr gf_none ?st
              (zeros_like \<lparr>dtype = UInt8, shape = [1, 1, 2], elems = [5, 5]\<rparr> Float32) of
         Inl e \<Rightarrow> Inl e
       | Inr r \<Rightarrow> Inr (restore_dtype (original_dtype ?self) (denormalize r 5 5)))"
    using t nd by simp
  have e2: "apply_to_slice pw_powr gf_none ?self
        \<lparr>dtype = UInt8, shape = [1, 2], elems = [5, 5]\<rparr> (Some ?st) =
      (case transform_chain pw_powr gf_none ?st
              (zeros_like \<lparr>dtype = UInt8, shape = [1, 2], elems = [5, 5]\<rparr> Float32) of
         Inl e \<Rightarrow> Inl e
       | Inr r \<Rightarrow> Inr (denormalize r 5 5))"
    using t nd by simp
  show ?thesis
    unfolding constant_sample fst_conv e1 e2
    by (simp add: transform_chain_def denormalize_def transform_defs array_defs Let_def
        trunc_real_def wrap_int_def)
qed

subsection \<open>The order of the transforms\<close>

text \<open>
  C6. Both paths run the five transforms in the order brightness, contrast, gamma,
  sharpness, invert: once the settings are not the default ones and the reference range
  \<open>lo\<close>, \<open>hi\<close> is known, each path is the normalisation, then the five calls nested in
  this order, then the denormalisation. The order matters: on the one-element field
  \<open>[1/2]\<close>, brightness 20 followed by contrast 2 gives \<open>[9/10]\<close>, and contrast 2 followed
  by brightness 20 gives \<open>[7/10]\<close>.
\<close>

theorem fixed_transform_order:
  "((case vo of None \<Rightarrow> original_volume self | Some w \<Rightarrow> Some w) = Some v \<and>
    st = (case sto of None \<Rightarrow> settings self | Some s \<Rightarrow> s) \<and> \<not> is_default st \<and>
    (case original_min self of Some m \<Rightarrow> Inr m | None \<Rightarrow> np_min v) = Inr lo \<and>
    (case original_max self of Some m \<Rightarrow> Inr m | None \<Rightarrow> np_max v) = Inr hi
    \<longrightarrow> apply_adjustments pw gf self vo sto =
          (case normalized_field v lo hi of
             Inl e \<Rightarrow> Inl e
           | Inr n \<Rightarrow>
               (case apply_gamma pw
                       (apply_contrast (apply_brightness n (brightness st)) (contrast st))
                       (gamma st) of
                  Inl e \<Rightarrow> Inl e
                | Inr y \<Rightarrow>
                    Inr (restore_dtype (original_dtype self)
                          (denormalize
                             (apply_invert (apply_sharpness gf y (sharpness st)) (invert st))
                             lo hi))))) \<and>
   (st = (case sto of None \<Rightarrow> settings self | Some s \<Rightarrow> s) \<and> \<not> is_default st \<and>
    (if original_min self \<noteq> None \<and> original_max self \<noteq> None
     then Inr (the (original_min self), the (original_max self))
     else (case np_min sl of
             Inl e \<Rightarrow> Inl e
           | Inr lo \<Rightarrow> (case np_max sl of
                         Inl e \<Rightarrow> Inl e
                       | Inr hi \<Rightarrow> Inr (lo, hi)))) = Inr (lo, hi)
    \<longrightarrow> apply_to_slice pw gf self sl sto =
          (case normalized_field sl lo hi of
             Inl e \<Rightarrow> Inl e
           | Inr n \<Rightarrow>
               (case apply_gamma pw
                       (apply_contrast (apply_brightness n (brightness st)) (contrast st))
                       (gamma st) of
                  Inl e \<Rightarrow> Inl e
                | Inr y \<Rightarrow>
                    Inr (denormalize
                          (apply_invert (apply_sharpness gf y (sharpness st)) (invert st))
                          lo hi)))) \<and>
   apply_contrast (apply_brightness \<lparr>dtype = Float32, shape = [1], elems = [1/2]\<rparr> 20) 2
     = \<lparr>dtype = Float32, shape = [1], elems = [9/10]\<rparr> \<and>
   apply_brightness (apply_contrast \<lparr>dtype = Float32, shape = [1], elems = [1/2]\<rparr> 2) 20
     = \<lparr>dtype = Float32, shape = [1], elems = [7/10]\<rparr> \<and>
   apply_contrast (apply_brightness \<lparr>dtype = Float32, shape = [1], elems = [1/2]\<rparr> 20) 2
     \<noteq> apply_brightness (apply_contrast \<lparr>dtype = Float32, shape = [1], elems = [1/2]\<rparr> 2) 20"
proof -
  have vol: "apply_adjustments pw gf self vo sto =
          (case normalized_field v lo hi of
             Inl e \<Rightarrow> Inl e
           | Inr n \<Rightarrow>
               (case apply_gamma pw
                       (apply_contrast (apply_brightness n (brightness st)) (contrast st))
                       (gamma st) of
                  Inl e \<Rightarrow> Inl e
                | Inr y \<Rightarrow>
                    Inr (restore_dtype (original_dtype self)
                          (denormalize
                             (apply_invert (apply_sharpness gf y (sharpness st)) (invert st))
                             lo hi))))"
    if "(case vo of None \<Rightarrow> original_volume self | Some w \<Rightarrow> Some w) = Some v"
      and "st = (case sto of None \<Rightarrow> settings self | Some s \<Rightarrow> s)" and "\<not> is_default st"
      and "(case original_min self of Some m \<Rightarrow> Inr m | None \<Rightarrow> np_min v) = Inr lo"
      and "(case original_max self of Some m \<Rightarrow> Inr m | None \<Rightarrow> np_max v) = Inr hi"
    using apply_adjustments_unfold [OF that, of pw gf]
    by (simp add: transform_chain_def split: sum.splits)
  have slc: "apply_to_slice pw gf self sl sto =
          (case normalized_field sl lo hi of
             Inl e \<Rightarrow> Inl e
           | Inr n \<Rightarrow>
               (case apply_gamma pw
                       (apply_contrast (apply_brightness n (brightness st)) (contrast st))
                       (gamma st) of
                  Inl e \<Rightarrow> Inl e
                | Inr y \<Rightarrow>
                    Inr (denormalize
                          (apply_invert (apply_sharpness gf y (sharpness st)) (invert st))
                          lo hi)))"
    if "st = (case sto of None \<Rightarrow> settings self | Some s \<Rightarrow> s)" and "\<not> is_default st"
      and "(if original_min self \<noteq> None \<and> original_max self \<noteq> None
     then Inr (the (original_min self), the (original_max self))
     else (case np_min sl of
             Inl e \<Rightarrow> Inl e
           | Inr lo \<Rightarrow> (case np_max sl of
                         Inl e \<Rightarrow> Inl e
                       | Inr hi \<Rightarrow> Inr (lo, hi)))) = Inr (lo, hi)"
    using apply_to_slice_unfold [OF that, of pw gf]
    by (simp add: transform_chain_def split: sum.splits)
  have bc: "apply_contrast (apply_brightness \<lparr>dtype = Float32, shape = [1], elems = [1/2]\<rparr> 20) 2
     = \<lparr>dtype = Float32, shape = [1], elems = [9/10]\<rparr>"
    by (simp add: apply_contrast_def apply_brightness_def array_defs)
  have cb: "apply_brightness (apply_contrast \<lparr>dtype = Float32, shape = [1], elems = [1/2]\<rparr> 2) 20
     = \<lparr>dtype = Float32, shape = [1], elems = [7/10]\<rparr>"
    by (simp add: apply_contrast_def apply_brightness_def array_defs)
  have ne: "apply_contrast (apply_brightness \<lparr>dtype = Float32, shape = [1], elems = [1/2]\<rparr> 20) 2
     \<noteq> apply_brightness (apply_contrast \<lparr>dtype = Float32, shape = [1], elems = [1/2]\<rparr> 2) 20"
    unfolding bc cb by simp
  show ?thesis
    using vol slc bc cb ne by blast
qed

lemma order_sample:
  "apply_to_slice pw gf init_ImageAdjuster \<lparr>dtype = Float32, shape = [1, 3], elems = [0, 1/2, 1]\<rparr>
     (Some \<lparr>brightness = 20, contrast = 2, gamma = 1, sharpness = 0, invert = False\<rparr>)
   = Inr \<lparr>dtype = Float32, shape = [1, 3], elems = [0, 9/10, 1]\<rparr>"
  by (simp add: apply_to_slice_def init_ImageAdjuster_def is_default_def Let_def
      transform_defs array_defs)

theorem fixed_transform_order_witness:
  "apply_to_slice pw_powr gf_none init_ImageAdjuster
     \<lparr>dtype = Float32, shape = [1, 3], elems = [0, 1/2, 1]\<rparr>
     (Some \<lparr>brightness = 20, contrast = 2, gamma = 1, sharpness = 0, invert = False\<rparr>)
   = (case normalized_field \<lparr>dtype = Float32, shape = [1, 3], elems = [0, 1/2, 1]\<rparr> 0 1 of
        Inl e \<Rightarrow> Inl e
      | Inr n \<Rightarrow>
          (case apply_gamma pw_powr (apply_contrast (apply_brightness n 20) 2) 1 of
             Inl e \<Rightarrow> Inl e
           | Inr y \<Rightarrow> Inr (denormalize (apply_invert (apply_sharpness gf_none y 0) False) 0 1))) \<and>
   apply_to_slice pw_powr gf_none init_ImageAdjuster
     \<lparr>dtype = Float32, shape = [1, 3], elems = [0, 1/2, 1]\<rparr>
     (Some \<lparr>brightness = 20, contrast = 2, gamma = 1, sharpness = 0, invert = False\<rparr>)
   = Inr \<lparr>dtype = Float32, shape = [1, 3], elems = [0, 9/10, 1]\<rparr>"
proof -
  let ?st = "\<lparr>brightness = 20, contrast = 2, gamma = 1, sharpness = 0, invert = False\<rparr>"
  let ?sl = "\<lparr>dtype = Float32, shape = [1, 3], elems = [0, 1/2, 1]\<rparr>"
  have nd: "\<not> is_default ?st"
    by (simp add: is_default_def)
  have rng: "(if original_min init_ImageAdjuster \<noteq> None \<and> original_max init_ImageAdjuster \<noteq> None
     then Inr (the (original_min init_ImageAdjuster), the (original_max init_ImageAdjuster))
     else (case np_min ?sl of
             Inl e \<Rightarrow> Inl e
           | Inr lo \<Rightarrow> (case np_max ?sl of
                         Inl e \<Rightarrow> Inl e
                       | Inr hi \<Rightarrow> Inr (lo, hi)))) = (Inr (0, 1) :: py_error + real \<times> real)"
    by (simp add: init_ImageAdjuster_def np_min_def np_max_def)
  have st: "?st = (case Some ?st of None \<Rightarrow> settings init_ImageAdjuster | Some s \<Rightarrow> s)"
    by simp
  note t = fixed_transform_order [where pw = pw_powr and gf = gf_none
      and self = init_ImageAdjuster and sl = ?sl and sto = "Some ?st" and st = ?st
      and lo = 0 and hi = 1 and vo = None and v = ?sl]
  have e: "apply_to_slice pw_powr gf_none init_ImageAdjuster ?sl (Some ?st)
   = (case normalized_field ?sl 0 1 of
        Inl e \<Rightarrow> Inl e
      | Inr n \<Rightarrow>
          (case apply_gamma pw_powr (apply_contrast (apply_brightness n 20) 2) 1 of
             Inl e \<Rightarrow> Inl e
           | Inr y \<Rightarrow> Inr (denormalize (apply_invert (apply_sharpness gf_none y 0) False) 0 1)))"
    using t st nd rng by (simp cong: sum.case_cong)
  show ?thesis
    using e order_sample [of pw_powr gf_none] by simp
qed

subsection \<open>Restoring the element type\<close>

lemma iinfo_range: "issubdtype_integer dt \<Longrightarrow> iinfo_min dt \<le> 0 \<and> 0 \<le> iinfo_max dt"
  by (cases dt) simp_all

lemma trunc_real_bounds:
  assumes "of_int lo \<le> y" and "y \<le> of_int hi"
  shows "lo \<le> trunc_real y \<and> trunc_real y \<le> hi"
proof (cases "0 \<le> y")
  case True
  then show ?thesis
    using assms by (auto simp add: trunc_real_def le_floor_iff floor_le_iff)
next
  case False
  then show ?thesis
    using assms by (auto simp add: trunc_real_def ceiling_le_iff le_ceiling_iff)
qed

lemma wrap_int_in_range:
  "iinfo_min dt \<le> n \<Longrightarrow> n \<le> iinfo_max dt \<Longrightarrow> wrap_int dt n = n"
  by (simp add: wrap_int_def)

lemma clip_bounds: "lo \<le> hi \<Longrightarrow> lo \<le> min (max x lo) hi \<and> min (max x lo) hi \<le> (hi::real)"
  by auto

text \<open>For the integer types of 8 and 16 bits the bounds of the clip are exact in
  \<^verbatim>\<open>float32\<close>.\<close>

lemma clip_bounds_exact:
  assumes "issubdtype_integer dt" and "iinfo_max dt < 2 ^ 24"
  shows "python_int_as Float32 (iinfo_min dt) = of_int (iinfo_min dt)"
    and "python_int_as Float32 (iinfo_max dt) = of_int (iinfo_max dt)"
  using assms by (cases dt; simp)+

lemma cast_elem_clipped:
  assumes "issubdtype_integer dt"
  shows "cast_elem src dt (min (max x (of_int (iinfo_min dt))) (of_int (iinfo_max dt))) =
           of_int (trunc_real (min (max x (of_int (iinfo_min dt))) (of_int (iinfo_max dt)))) \<and>
         iinfo_min dt \<le> trunc_real (min (max x (of_int (iinfo_min dt))) (of_int (iinfo_max dt))) \<and>
         trunc_real (min (max x (of_int (iinfo_min dt))) (of_int (iinfo_max dt))) \<le> iinfo_max dt"
proof -
  let ?y = "min (max x (of_int (iinfo_min dt))) (of_int (iinfo_max dt)) :: real"
  have "(of_int (iinfo_min dt) :: real) \<le> of_int (iinfo_max dt)"
    using iinfo_range [OF assms] by simp
  then have "of_int (iinfo_min dt) \<le> ?y \<and> ?y \<le> of_int (iinfo_max dt)"
    by (rule clip_bounds)
  then have b: "iinfo_min dt \<le> trunc_real ?y \<and> trunc_real ?y \<le> iinfo_max dt"
    using trunc_real_bounds by blast
  then show ?thesis
    using assms by (simp add: cast_elem_def wrap_int_in_range)
qed

lemma restore_dtype_narrow:
  assumes "issubdtype_integer dt" and "iinfo_max dt < 2 ^ 24" and "dtype a = Float32"
  shows "dtype (restore_dtype (Some dt) a) = dt"
    and "shape (restore_dtype (Some dt) a) = shape a"
    and "elems (restore_dtype (Some dt) a) =
           map (\<lambda>x. of_int (trunc_real (min (max x (of_int (iinfo_min dt))) (of_int (iinfo_max dt)))))
             (elems a)"
    and "list_all (\<lambda>x. of_int (iinfo_min dt) \<le> x \<and> x \<le> of_int (iinfo_max dt) \<and> x \<in> \<int>)
           (elems (restore_dtype (Some dt) a))"
proof -
  note b = clip_bounds_exact [OF assms(1,2)]
  show "dtype (restore_dtype (Some dt) a) = dt"
    by (simp add: restore_dtype_def astype_def)
  show "shape (restore_dtype (Some dt) a) = shape a"
    using assms(1) by (simp add: restore_dtype_def astype_def np_clip_def)
  show e: "elems (restore_dtype (Some dt) a) =
           map (\<lambda>x. of_int (trunc_real (min (max x (of_int (iinfo_min dt))) (of_int (iinfo_max dt)))))
             (elems a)"
    using assms(1) cast_elem_clipped [OF assms(1)]
    by (simp add: restore_dtype_def astype_def np_clip_def assms(3) b)
  show "list_all (\<lambda>x. of_int (iinfo_min dt) \<le> x \<and> x \<le> of_int (iinfo_max dt) \<and> x \<in> \<int>)
           (elems (restore_dtype (Some dt) a))"
    unfolding e using cast_elem_clipped [OF assms(1)]
    by (simp add: list_all_iff)
qed

lemma restore_dtype_floating:
  assumes "\<not> issubdtype_integer dt" and "\<not> issubdtype_integer (dtype a)"
  shows "restore_dtype (Some dt) a = a\<lparr>dtype := dt\<rparr>"
proof -
  have "cast_elem (dtype a) dt = (\<lambda>x. x)"
    using assms by (intro ext) simp
  then show ?thesis
    using assms by (simp add: restore_dtype_def astype_def map_elems_def)
qed

lemma set_original_volume_success:
  assumes "set_original_volume self0 v = (self, None)"
  shows "original_volume self = Some v \<and> original_dtype self = Some (dtype v) \<and>
         original_min self \<noteq> None \<and> original_max self \<noteq> None \<and> elems v \<noteq> [] \<and>
         settings self = settings self0"
  using assms
  by (auto simp add: set_original_volume_def Let_def np_min_def np_max_def
      split: sum.splits list.splits)

text \<open>What holds of the code for 8-bit data: after an 8-bit unsigned volume with values
  in \<open>[0, 255]\<close> has been registered, whatever \<open>apply_adjustments\<close> returns for it has
  the element type \<^verbatim>\<open>uint8\<close> and integer values in \<open>[0, 255]\<close>.\<close>

lemma uint8_volume_stays_uint8:
  assumes reg: "set_original_volume self0 v = (self, None)" and dt: "dtype v = UInt8"
    and rng: "list_all (\<lambda>x. 0 \<le> x \<and> x \<le> 255 \<and> x \<in> \<int>) (elems v)"
    and vo: "vo = None \<or> vo = Some v"
    and res: "apply_adjustments pw gf self vo sto = Inr r"
  shows "dtype r = UInt8 \<and> list_all (\<lambda>x. 0 \<le> x \<and> x \<le> 255 \<and> x \<in> \<int>) (elems r)"
proof (cases "is_default (case sto of None \<Rightarrow> settings self | Some s \<Rightarrow> s)")
  case True
  have avail: "(case vo of None \<Rightarrow> original_volume self | Some w \<Rightarrow> Some w) = Some v"
    using set_original_volume_success [OF reg] vo by auto
  have "r = v"
    using apply_adjustments_default [OF avail True, of pw gf] res by simp
  then show ?thesis
    using dt rng by simp
next
  case False
  have avail: "(case vo of None \<Rightarrow> original_volume self | Some w \<Rightarrow> Some w) = Some v"
    using set_original_volume_success [OF reg] vo by auto
  have odt: "original_dtype self = Some UInt8"
    using set_original_volume_success [OF reg] dt by simp
  obtain lo hi n where n: "normalized_field v lo hi = Inr n"
    and eq: "apply_adjustments pw gf self vo sto =
          (case transform_chain pw gf (case sto of None \<Rightarrow> settings self | Some s \<Rightarrow> s) n of
             Inl e \<Rightarrow> Inl e
           | Inr r \<Rightarrow> Inr (restore_dtype (original_dtype self) (denormalize r lo hi)))"
    using apply_adjustments_cases [OF avail refl False, of pw gf] res by auto
  obtain c where c: "transform_chain pw gf (case sto of None \<Rightarrow> settings self | Some s \<Rightarrow> s) n = Inr c"
    and r: "r = restore_dtype (Some UInt8) (denormalize c lo hi)"
    using eq res odt
    by (cases "transform_chain pw gf (case sto of None \<Rightarrow> settings self | Some s \<Rightarrow> s) n") auto
  have "dtype n = Float32"
    using normalized_field_Float32 [OF n] by simp
  then have "dtype c = Float32"
    using transform_chain_dtype [OF _ c] by simp
  then have f: "dtype (denormalize c lo hi) = Float32"
    by (simp add: denormalize_dtype)
  show ?thesis
    using restore_dtype_narrow(1,4) [OF _ _ f, of UInt8] by (simp add: r)
qed

lemma int64_bit_lengths:
  "bit_length 9223372036854775807 = 63"
  "bit_length 9223372036854775808 = 64"
proof -
  show "bit_length 9223372036854775807 = 63"
    using bit_length_eq [of 62 9223372036854775807] by simp
  show "bit_length 9223372036854775808 = 64"
    using bit_length_eq [of 63 9223372036854775808] by simp
qed

lemma int64_roundings:
  "round_to_bits 53 9223372036854775807 = 9223372036854775808"
  "round_to_bits 24 9223372036854775807 = 9223372036854775808"
  "round_to_bits 24 9223372036854775808 = 9223372036854775808"
  "round_to_bits 53 (- 9223372036854775808) = - 9223372036854775808"
  "round_to_bits 24 (- 9223372036854775808) = - 9223372036854775808"
  "round_to_bits 53 0 = 0"
  "round_to_bits 24 0 = 0"
  by (simp_all add: round_to_bits_def int64_bit_lengths Let_def round_to_bits_small)

text \<open>
  C3 on the code. An \<^verbatim>\<open>int64\<close> volume with the values \<open>0\<close> and \<open>2^63 - 1\<close> is registered
  and adjusted with \<open>invert\<close> alone. \<^verbatim>\<open>float(volume.max())\<close> is \<open>2^63\<close>, the inverted field
  denormalises to \<open>[2^63, 0]\<close>, and the upper bound of the clip, \<^verbatim>\<open>info.max\<close> as a
  \<^verbatim>\<open>float32\<close>, is \<open>2^63\<close> too, one more than the largest \<^verbatim>\<open>int64\<close>. The clip lets
  \<open>2^63\<close> through, and the cast turns it into \<open>- 2^63\<close>: the brightest value of the
  result comes out as the most negative one.
\<close>

theorem int64_clip_lets_overflow_through:
  "set_original_volume init_ImageAdjuster
     \<lparr>dtype = Int64, shape = [1, 1, 2], elems = [0, 9223372036854775807]\<rparr>
   = (\<lparr>settings = default_settings,
       original_volume = Some \<lparr>dtype = Int64, shape = [1, 1, 2], elems = [0, 9223372036854775807]\<rparr>,
       original_dtype = Some Int64, original_min = Some 0,
       original_max = Some 9223372036854775808\<rparr>, None) \<and>
   python_int_as Float32 (iinfo_max Int64) = 9223372036854775808 \<and>
   real_of_int (iinfo_max Int64) < 9223372036854775808 \<and>
   np_clip \<lparr>dtype = Float32, shape = [1, 1, 2], elems = [9223372036854775808, 0]\<rparr>
     (python_int_as Float32 (iinfo_min Int64)) (python_int_as Float32 (iinfo_max Int64))
   = \<lparr>dtype = Float32, shape = [1, 1, 2], elems = [9223372036854775808, 0]\<rparr> \<and>
   apply_adjustments pw_powr gf_none
     \<lparr>settings = default_settings,
       original_volume = Some \<lparr>dtype = Int64, shape = [1, 1, 2], elems = [0, 9223372036854775807]\<rparr>,
       original_dtype = Some Int64, original_min = Some 0,
       original_max = Some 9223372036854775808\<rparr>
     None
     (Some \<lparr>brightness = 0, contrast = 1, gamma = 1, sharpness = 0, invert = True\<rparr>)
   = Inr \<lparr>dtype = Int64, shape = [1, 1, 2], elems = [- 9223372036854775808, 0]\<rparr>"
proof -
  have b': "python_int_as Float32 (- 9223372036854775808) = - 9223372036854775808"
    "python_int_as Float32 9223372036854775807 = 9223372036854775808"
    by (simp_all add: python_int_as_def int64_roundings)
  have b: "python_int_as Float32 (iinfo_min Int64) = - 9223372036854775808"
    "python_int_as Float32 (iinfo_max Int64) = 9223372036854775808"
    by (simp_all add: b')
  have reg: "set_original_volume init_ImageAdjuster
     \<lparr>dtype = Int64, shape = [1, 1, 2], elems = [0, 9223372036854775807]\<rparr>
   = (\<lparr>settings = default_settings,
       original_volume = Some \<lparr>dtype = Int64, shape = [1, 1, 2], elems = [0, 9223372036854775807]\<rparr>,
       original_dtype = Some Int64, original_min = Some 0,
       original_max = Some 9223372036854775808\<rparr>, None)"
    by (simp add: set_original_volume_def init_ImageAdjuster_def np_min_def np_max_def
        python_float_def int_to_float_def int64_roundings)
  have clip: "np_clip \<lparr>dtype = Float32, shape = [1, 1, 2], elems = [9223372036854775808, 0]\<rparr>
     (python_int_as Float32 (iinfo_min Int64)) (python_int_as Float32 (iinfo_max Int64))
   = \<lparr>dtype = Float32, shape = [1, 1, 2], elems = [9223372036854775808, 0]\<rparr>"
    unfolding b by (simp add: np_clip_def map_elems_def)
  have norm: "normalized_field \<lparr>dtype = Int64, shape = [1, 1, 2], elems = [0, 9223372036854775807]\<rparr>
       0 9223372036854775808
     = Inr \<lparr>dtype = Float32, shape = [1, 1, 2], elems = [0, 1]\<rparr>"
    by (simp del: One_nat_def add: normalized_field_def astype_def cast_elem_def
        int_to_float_def int64_roundings sub_scalar_def div_scalar_def map_elems_def
        float_result_def)
  have rest: "restore_dtype (Some Int64)
       \<lparr>dtype = Float32, shape = [1, 1, 2], elems = [9223372036854775808, 0]\<rparr>
     = \<lparr>dtype = Int64, shape = [1, 1, 2], elems = [- 9223372036854775808, 0]\<rparr>"
    unfolding restore_dtype_def
    by (simp del: One_nat_def add: b' np_clip_def astype_def cast_elem_def map_elems_def
        trunc_real_def wrap_int_def)
  have run: "apply_adjustments pw_powr gf_none
     \<lparr>settings = default_settings,
       original_volume = Some \<lparr>dtype = Int64, shape = [1, 1, 2], elems = [0, 9223372036854775807]\<rparr>,
       original_dtype = Some Int64, original_min = Some 0,
       original_max = Some 9223372036854775808\<rparr>
     None
     (Some \<lparr>brightness = 0, contrast = 1, gamma = 1, sharpness = 0, invert = True\<rparr>)
   = Inr \<lparr>dtype = Int64, shape = [1, 1, 2], elems = [- 9223372036854775808, 0]\<rparr>"
    by (simp del: One_nat_def add: apply_adjustments_def is_default_def norm Let_def
        apply_brightness_def apply_contrast_def apply_gamma_def apply_sharpness_def
        apply_invert_def rsub_scalar_def mul_scalar_def add_scalar_def map_elems_def
        float_result_def rest)
  have lt: "real_of_int (iinfo_max Int64) < 9223372036854775808"
    by simp
  show ?thesis
    using reg b(2) lt clip run by (intro conjI)
qed

subsection \<open>Normalisation and denormalisation\<close>

text \<open>In the exact arithmetic of this model, denormalising the normalised field of a
  floating-point volume gives the values of the field back whenever the two bounds
  differ. What the \<^verbatim>\<open>float32\<close> computation of the source loses to rounding and
  overflow lies outside the model.\<close>

lemma denormalize_normalized_field:
  assumes "hi \<noteq> lo" and "normalized_field v lo hi = Inr n"
    and "\<not> issubdtype_integer (dtype v)"
  shows "elems (denormalize n lo hi) = elems v"
proof -
  have n: "n = map_elems (\<lambda>x. x / (hi - lo)) Float32 (sub_scalar (astype v Float32) lo)"
    using assms by (simp add: normalized_field_def div_scalar_def sub_scalar_def astype_def)
  have "(x - lo) / (hi - lo) * (hi - lo) + lo = x" for x
    using assms(1) by simp
  then show ?thesis
    using assms(3)
    by (simp add: n denormalize_def add_scalar_def mul_scalar_def sub_scalar_def astype_def
        cast_elem_def comp_def)
qed

subsection \<open>Preview and final result\<close>

lemma position_bound:
  assumes "i < d0" and "j < d1" and "l < (d2::nat)"
  shows "(i * d1 + j) * d2 + l < d0 * d1 * d2"
proof -
  have "i * d1 + j + 1 \<le> i * d1 + d1"
    using assms(2) by simp
  also have "\<dots> = (i + 1) * d1"
    by simp
  also have "\<dots> \<le> d0 * d1"
    using assms(1) by (intro mult_le_mono1) simp
  finally have a: "i * d1 + j + 1 \<le> d0 * d1" .
  have "(i * d1 + j) * d2 + l < (i * d1 + j) * d2 + d2"
    using assms(3) by simp
  also have "\<dots> = (i * d1 + j + 1) * d2"
    by simp
  also have "\<dots> \<le> d0 * d1 * d2"
    using a by (intro mult_le_mono1)
  finally show ?thesis .
qed

lemma position_bound_interval:
  assumes "i < d0" and "j < d1" and "(i * d1 + j) * d2 \<le> p" and "p < d2 + (i * d1 + j) * (d2::nat)"
  shows "p < d0 * d1 * d2"
  using position_bound [OF assms(1,2), of "p - (i * d1 + j) * d2" d2] assms(3,4) by simp

lemma slice_positions_bound:
  assumes "axis < 3" and "k < [d0, d1, d2] ! axis" and "p \<in> set (slice_positions d0 d1 d2 axis k)"
  shows "p < d0 * d1 * d2"
proof -
  consider "axis = 0" | "axis = 1" | "axis = 2"
    using assms(1) by linarith
  then show ?thesis
  proof cases
    case 1
    then show ?thesis
      using assms(2,3) by (auto simp add: slice_positions_def position_bound_interval)
  next
    case 2
    then show ?thesis
      using assms(2,3) by (auto simp add: slice_positions_def position_bound_interval)
  next
    case 3
    then show ?thesis
      using assms(2,3) by (auto simp add: slice_positions_def position_bound)
  qed
qed

lemma take_slice_dtype: "take_slice a axis k = Some sl \<Longrightarrow> dtype sl = dtype a"
  by (auto simp add: take_slice_def split: list.splits if_splits)

lemma take_slice_map_elems:
  assumes "take_slice a axis k = Some sl"
  shows "take_slice (map_elems f dt a) axis k = Some (map_elems f dt sl)"
proof -
  obtain d0 d1 d2 where sh: "shape a = [d0, d1, d2]"
    and ax: "axis < 3" and k: "k < [d0, d1, d2] ! axis" and len: "length (elems a) = d0 * d1 * d2"
    and sl: "sl = \<lparr>dtype = dtype a, shape = slice_shape d0 d1 d2 axis,
                      elems = map (\<lambda>p. elems a ! p) (slice_positions d0 d1 d2 axis k)\<rparr>"
    using assms by (auto simp add: take_slice_def split: list.splits if_splits)
  have "map (\<lambda>p. map f (elems a) ! p) (slice_positions d0 d1 d2 axis k) =
        map f (map (\<lambda>p. elems a ! p) (slice_positions d0 d1 d2 axis k))"
    using slice_positions_bound [OF ax k] len by simp
  then show ?thesis
    using ax k len by (simp add: take_slice_def sh sl map_elems_def)
qed

lemma take_slice_elementwise:
  assumes "take_slice a axis k = Some sl"
  shows "take_slice (np_clip a lo hi) axis k = Some (np_clip sl lo hi)"
    and "take_slice (zeros_like a dt) axis k = Some (zeros_like sl dt)"
    and "take_slice (astype a dt) axis k = Some (astype sl dt)"
    and "take_slice (add_scalar a c) axis k = Some (add_scalar sl c)"
    and "take_slice (sub_scalar a c) axis k = Some (sub_scalar sl c)"
    and "take_slice (mul_scalar a c) axis k = Some (mul_scalar sl c)"
    and "take_slice (rsub_scalar c a) axis k = Some (rsub_scalar c sl)"
    and "take_slice (np_power pw a c) axis k = Some (np_power pw sl c)"
  using take_slice_map_elems [OF assms] take_slice_dtype [OF assms]
  by (simp_all add: np_clip_def zeros_like_def astype_def add_scalar_def sub_scalar_def
      mul_scalar_def rsub_scalar_def np_power_def)

lemma take_slice_normalized_field:
  assumes "take_slice a axis k = Some sl" and "normalized_field a lo hi = Inr n"
  shows "\<exists>n'. normalized_field sl lo hi = Inr n' \<and> take_slice n axis k = Some n'"
proof (cases "hi = lo")
  case True
  then show ?thesis
    using assms take_slice_elementwise(2) [OF assms(1)] by (auto simp add: normalized_field_def)
next
  case False
  have "take_slice (sub_scalar (astype a Float32) lo) axis k = Some (sub_scalar (astype sl Float32) lo)"
    using assms(1) by (intro take_slice_elementwise) 
  then have "take_slice (map_elems (\<lambda>x. x / (hi - lo)) (float_result (dtype (sub_scalar (astype a Float32) lo)))
                 (sub_scalar (astype a Float32) lo)) axis k
     = Some (map_elems (\<lambda>x. x / (hi - lo)) (float_result (dtype (sub_scalar (astype a Float32) lo)))
                 (sub_scalar (astype sl Float32) lo))"
    by (rule take_slice_map_elems)
  then show ?thesis
    using False assms(2)
    by (auto simp add: normalized_field_def div_scalar_def sub_scalar_def astype_def)
qed

lemma take_slice_transform_chain:
  assumes sl: "take_slice a axis k = Some b" and s0: "sharpness st = 0"
  shows "(case transform_chain pw gf st a of Inl e \<Rightarrow> Inl e | Inr r \<Rightarrow> Inr (take_slice r axis k))
       = (case transform_chain pw gf st b of Inl e \<Rightarrow> Inl e | Inr r \<Rightarrow> Inr (Some r))"
proof -
  have b: "take_slice (apply_brightness a (brightness st)) axis k = Some (apply_brightness b (brightness st))"
    using sl by (simp add: apply_brightness_def take_slice_elementwise)
  have c: "take_slice (apply_contrast (apply_brightness a (brightness st)) (contrast st)) axis k
      = Some (apply_contrast (apply_brightness b (brightness st)) (contrast st))"
    using b by (simp add: apply_contrast_def take_slice_elementwise)
  show ?thesis
  proof (cases "gamma st = 1 \<or> gamma st = 0")
    case True
    then show ?thesis
      using c s0
      by (auto simp add: transform_chain_def apply_gamma_def apply_sharpness_def apply_invert_def
          take_slice_elementwise)
  next
    case False
    then show ?thesis
      using c s0
      by (simp add: transform_chain_def apply_gamma_def apply_sharpness_def apply_invert_def
          take_slice_elementwise)
  qed
qed

lemma take_slice_denormalize:
  "take_slice a axis k = Some b \<Longrightarrow> take_slice (denormalize a lo hi) axis k = Some (denormalize b lo hi)"
  by (simp add: denormalize_def take_slice_elementwise)

lemma take_slice_restore_dtype:
  "take_slice a axis k = Some b \<Longrightarrow> take_slice (restore_dtype odt a) axis k = Some (restore_dtype odt b)"
  using take_slice_dtype [of a axis k b]
  by (cases odt) (simp_all add: restore_dtype_def take_slice_elementwise)

lemma take_slice_sample_in:
  "take_slice \<lparr>dtype = UInt8, shape = [1, 1, 2], elems = [0, 3]\<rparr> 0 0
     = Some \<lparr>dtype = UInt8, shape = [1, 2], elems = [0, 3]\<rparr>"
  by (simp add: take_slice_def slice_positions_def slice_shape_def upt_rec)

lemma take_slice_sample_out:
  "take_slice \<lparr>dtype = UInt8, shape = [1, 1, 2], elems = [0, 2]\<rparr> 0 0
     = Some \<lparr>dtype = UInt8, shape = [1, 2], elems = [0, 2]\<rparr>"
  by (simp add: take_slice_def slice_positions_def slice_shape_def upt_rec)

text \<open>
  C2 as the code has it. A volume is registered, a slice is taken from it along any of
  its three axes, the settings are not the default ones and \<open>sharpness\<close> is zero. Then
  both paths normalise with the cached range and either both raise the same error or
  both return, and the slice of the adjusted volume is the adjusted slice after the
  clip and cast to the registered element type, which only the volume path performs.
  For a volume registered as \<^verbatim>\<open>float32\<close> the two are equal as they are.
\<close>

theorem preview_matches_final_after_cast:
  "set_original_volume self0 v = (self, None) \<Longrightarrow> take_slice v axis k = Some sl \<Longrightarrow>
   st = (case sto of None \<Rightarrow> settings self | Some s \<Rightarrow> s) \<Longrightarrow> \<not> is_default st \<Longrightarrow>
   sharpness st = 0 \<Longrightarrow>
     (case apply_adjustments pw gf self None sto of
        Inl e \<Rightarrow> Inl e | Inr r \<Rightarrow> Inr (take_slice r axis k))
     = (case apply_to_slice pw gf self sl sto of
          Inl e \<Rightarrow> Inl e | Inr p \<Rightarrow> Inr (Some (restore_dtype (Some (dtype v)) p))) \<and>
     (dtype v = Float32 \<longrightarrow>
        (case apply_adjustments pw gf self None sto of
           Inl e \<Rightarrow> Inl e | Inr r \<Rightarrow> Inr (take_slice r axis k))
        = (case apply_to_slice pw gf self sl sto of
             Inl e \<Rightarrow> Inl e | Inr p \<Rightarrow> Inr (Some p)))"
proof -
  assume reg: "set_original_volume self0 v = (self, None)"
    and sl: "take_slice v axis k = Some sl"
    and st: "st = (case sto of None \<Rightarrow> settings self | Some s \<Rightarrow> s)"
    and nd: "\<not> is_default st" and s0: "sharpness st = 0"
  note r = set_original_volume_success [OF reg]
  obtain lo hi where lo: "original_min self = Some lo" and hi: "original_max self = Some hi"
    using r by auto
  have avail: "(case None of None \<Rightarrow> original_volume self | Some w \<Rightarrow> Some w) = Some v"
    using r by simp
  have odt: "original_dtype self = Some (dtype v)"
    using r by simp
  obtain n where n: "normalized_field v lo hi = Inr n"
    using normalized_field_returns by blast
  obtain n' where n': "normalized_field sl lo hi = Inr n'" and nn: "take_slice n axis k = Some n'"
    using take_slice_normalized_field [OF sl n] by blast
  have vol: "apply_adjustments pw gf self None sto =
      (case transform_chain pw gf st n of
         Inl e \<Rightarrow> Inl e
       | Inr c \<Rightarrow> Inr (restore_dtype (Some (dtype v)) (denormalize c lo hi)))"
    using apply_adjustments_unfold [OF avail st nd, of lo hi pw gf] lo hi n odt
    by (simp cong: sum.case_cong)
  have rng: "(if original_min self \<noteq> None \<and> original_max self \<noteq> None
          then Inr (the (original_min self), the (original_max self))
          else (case np_min sl of
                  Inl e \<Rightarrow> Inl e
                | Inr lo \<Rightarrow> (case np_max sl of
                              Inl e \<Rightarrow> Inl e
                            | Inr hi \<Rightarrow> Inr (lo, hi)))) = (Inr (lo, hi) :: py_error + real \<times> real)"
    using lo hi by simp
  have slc: "apply_to_slice pw gf self sl sto =
      (case transform_chain pw gf st n' of
         Inl e \<Rightarrow> Inl e
       | Inr c \<Rightarrow> Inr (denormalize c lo hi))"
    using apply_to_slice_unfold [OF st nd rng, of pw gf] n' by simp
  note ch = take_slice_transform_chain [OF nn s0, of pw gf]
  have main: "(case apply_adjustments pw gf self None sto of
        Inl e \<Rightarrow> Inl e | Inr r \<Rightarrow> Inr (take_slice r axis k))
     = (case apply_to_slice pw gf self sl sto of
          Inl e \<Rightarrow> Inl e | Inr p \<Rightarrow> Inr (Some (restore_dtype (Some (dtype v)) p)))"
  proof (cases "transform_chain pw gf st n")
    case (Inl e)
    then have "transform_chain pw gf st n' = Inl e"
      using ch by (cases "transform_chain pw gf st n'") simp_all
    then show ?thesis
      by (simp add: vol slc Inl)
  next
    case (Inr c)
    then obtain c' where c': "transform_chain pw gf st n' = Inr c'" and cc: "take_slice c axis k = Some c'"
      using ch by (cases "transform_chain pw gf st n'") simp_all
    have "take_slice (restore_dtype (Some (dtype v)) (denormalize c lo hi)) axis k
        = Some (restore_dtype (Some (dtype v)) (denormalize c' lo hi))"
      using cc by (intro take_slice_restore_dtype take_slice_denormalize)
    then show ?thesis
      by (simp add: vol slc Inr c')
  qed
  have flt: "restore_dtype (Some (dtype v)) p = p"
    if "dtype v = Float32" and "apply_to_slice pw gf self sl sto = Inr p" for p
  proof -
    have "dtype p = Float32"
      using apply_to_slice_dtype [OF st nd that(2)] .
    then show ?thesis
      using that(1) by (simp add: restore_dtype_floating)
  qed
  have "(case apply_to_slice pw gf self sl sto of
          Inl e \<Rightarrow> Inl e | Inr p \<Rightarrow> Inr (Some (restore_dtype (Some (dtype v)) p)))
      = (case apply_to_slice pw gf self sl sto of
             Inl e \<Rightarrow> Inl e | Inr p \<Rightarrow> Inr (Some p))" if "dtype v = Float32"
    using flt [OF that] by (cases "apply_to_slice pw gf self sl sto") simp_all
  then show ?thesis
    using main by simp
qed

theorem preview_matches_final_after_cast_witness:
  "set_original_volume init_ImageAdjuster \<lparr>dtype = UInt8, shape = [1, 1, 2], elems = [0, 3]\<rparr> =
     (\<lparr>settings = default_settings,
       original_volume = Some \<lparr>dtype = UInt8, shape = [1, 1, 2], elems = [0, 3]\<rparr>,
       original_dtype = Some UInt8, original_min = Some 0, original_max = Some 3\<rparr>, None) \<and>
   take_slice \<lparr>dtype = UInt8, shape = [1, 1, 2], elems = [0, 3]\<rparr> 0 0
     = Some \<lparr>dtype = UInt8, shape = [1, 2], elems = [0, 3]\<rparr> \<and>
   \<not> is_default \<lparr>brightness = 0, contrast = 1/2, gamma = 1, sharpness = 0, invert = False\<rparr> \<and>
   sharpness \<lparr>brightness = 0, contrast = 1/2, gamma = 1, sharpness = 0, invert = False\<rparr> = 0 \<and>
   (case apply_adjustments pw_powr gf_none
           \<lparr>settings = default_settings,
             original_volume = Some \<lparr>dtype = UInt8, shape = [1, 1, 2], elems = [0, 3]\<rparr>,
             original_dtype = Some UInt8, original_min = Some 0, original_max = Some 3\<rparr>
           None
           (Some \<lparr>brightness = 0, contrast = 1/2, gamma = 1, sharpness = 0, invert = False\<rparr>) of
      Inl e \<Rightarrow> Inl e | Inr r \<Rightarrow> Inr (take_slice r 0 0))
   = (case apply_to_slice pw_powr gf_none
           \<lparr>settings = default_settings,
             original_volume = Some \<lparr>dtype = UInt8, shape = [1, 1, 2], elems = [0, 3]\<rparr>,
             original_dtype = Some UInt8, original_min = Some 0, original_max = Some 3\<rparr>
           \<lparr>dtype = UInt8, shape = [1, 2], elems = [0, 3]\<rparr>
           (Some \<lparr>brightness = 0, contrast = 1/2, gamma = 1, sharpness = 0, invert = False\<rparr>) of
        Inl e \<Rightarrow> Inl e
      | Inr p \<Rightarrow> Inr (Some (restore_dtype
                 (Some (dtype \<lparr>dtype = UInt8, shape = [1, 1, 2], elems = [0, 3]\<rparr>)) p))) \<and>
   (case apply_adjustments pw_powr gf_none
           \<lparr>settings = default_settings,
             original_volume = Some \<lparr>dtype = Float32, shape = [1, 1, 2], elems = [0, 3]\<rparr>,
             original_dtype = Some Float32, original_min = Some 0, original_max = Some 3\<rparr>
           None
           (Some \<lparr>brightness = 0, contrast = 1/2, gamma = 1, sharpness = 0, invert = False\<rparr>) of
      Inl e \<Rightarrow> Inl e | Inr r \<Rightarrow> Inr (take_slice r 0 0))
   = (case apply_to_slice pw_powr gf_none
           \<lparr>settings = default_settings,
             original_volume = Some \<lparr>dtype = Float32, shape = [1, 1, 2], elems = [0, 3]\<rparr>,
             original_dtype = Some Float32, original_min = Some 0, original_max = Some 3\<rparr>
           \<lparr>dtype = Float32, shape = [1, 2], elems = [0, 3]\<rparr>
           (Some \<lparr>brightness = 0, contrast = 1/2, gamma = 1, sharpness = 0, invert = False\<rparr>) of
        Inl e \<Rightarrow> Inl e | Inr p \<Rightarrow> Inr (Some p))"
proof -
  let ?v = "\<lparr>dtype = UInt8, shape = [1, 1, 2], elems = [0, 3]\<rparr>"
  let ?self = "\<lparr>settings = default_settings,
       original_volume = Some \<lparr>dtype = UInt8, shape = [1, 1, 2], elems = [0, 3]\<rparr>,
       original_dtype = Some UInt8, original_min = Some 0, original_max = Some 3\<rparr>"
  let ?st = "\<lparr>brightness = 0, contrast = 1/2, gamma = 1, sharpness = 0, invert = False\<rparr>"
  let ?sl = "\<lparr>dtype = UInt8, shape = [1, 2], elems = [0, 3]\<rparr>"
  have h1: "set_original_volume init_ImageAdjuster ?v = (?self, None)"
    by (rule registered_sample)
  have h2: "take_slice ?v 0 0 = Some ?sl"
    by (rule take_slice_sample_in)
  have h3: "?st = (case Some ?st of None \<Rightarrow> settings ?self | Some s \<Rightarrow> s)"
    by simp
  have h4: "\<not> is_default ?st"
    by (simp add: is_default_def)
  have h5: "sharpness ?st = 0"
    by simp
  let ?w = "\<lparr>dtype = Float32, shape = [1, 1, 2], elems = [0, 3]\<rparr>"
  let ?selfw = "\<lparr>settings = default_settings,
       original_volume = Some \<lparr>dtype = Float32, shape = [1, 1, 2], elems = [0, 3]\<rparr>,
       original_dtype = Some Float32, original_min = Some 0, original_max = Some 3\<rparr>"
  let ?slw = "\<lparr>dtype = Float32, shape = [1, 2], elems = [0, 3]\<rparr>"
  have g1: "set_original_volume init_ImageAdjuster ?w = (?selfw, None)"
    by (simp add: set_original_volume_def init_ImageAdjuster_def np_min_def np_max_def)
  have g2: "take_slice ?w 0 0 = Some ?slw"
    by (simp add: take_slice_def slice_positions_def slice_shape_def upt_rec)
  have g3: "?st = (case Some ?st of None \<Rightarrow> settings ?selfw | Some s \<Rightarrow> s)"
    by simp
  have g6: "dtype ?w = Float32"
    by simp
  note u = preview_matches_final_after_cast [OF h1 h2 h3 h4 h5, of pw_powr gf_none, THEN conjunct1]
  note f = preview_matches_final_after_cast [OF g1 g2 g3 h4 h5, of pw_powr gf_none, THEN conjunct2,
      THEN mp, OF g6]
  show ?thesis
    using h1 h2 h4 h5 u f by (intro conjI)
qed

text \<open>C2 as stated fails: for a registered 8-bit volume and contrast 1/2 the adjusted slice
  is the \<^verbatim>\<open>float32\<close> field \<open>[3/4, 9/4]\<close>, the slice of the adjusted volume the
  \<^verbatim>\<open>uint8\<close> field \<open>[0, 2]\<close>.\<close>

theorem preview_final_counterexample:
  "take_slice \<lparr>dtype = UInt8, shape = [1, 1, 2], elems = [0, 3]\<rparr> 0 0
     = Some \<lparr>dtype = UInt8, shape = [1, 2], elems = [0, 3]\<rparr> \<and>
   apply_to_slice pw_powr gf_none
     (fst (set_original_volume init_ImageAdjuster \<lparr>dtype = UInt8, shape = [1, 1, 2], elems = [0, 3]\<rparr>))
     \<lparr>dtype = UInt8, shape = [1, 2], elems = [0, 3]\<rparr>
     (Some \<lparr>brightness = 0, contrast = 1/2, gamma = 1, sharpness = 0, invert = False\<rparr>)
     = Inr \<lparr>dtype = Float32, shape = [1, 2], elems = [3/4, 9/4]\<rparr> \<and>
   apply_adjustments pw_powr gf_none
     (fst (set_original_volume init_ImageAdjuster \<lparr>dtype = UInt8, shape = [1, 1, 2], elems = [0, 3]\<rparr>))
     None
     (Some \<lparr>brightness = 0, contrast = 1/2, gamma = 1, sharpness = 0, invert = False\<rparr>)
     = Inr \<lparr>dtype = UInt8, shape = [1, 1, 2], elems = [0, 2]\<rparr> \<and>
   take_slice \<lparr>dtype = UInt8, shape = [1, 1, 2], elems = [0, 2]\<rparr> 0 0
     = Some \<lparr>dtype = UInt8, shape = [1, 2], elems = [0, 2]\<rparr> \<and>
   \<lparr>dtype = Float32, shape = [1, 2], elems = [3/4, 9/4]\<rparr>
     \<noteq> \<lparr>dtype = UInt8, shape = [1, 2], elems = [0, 2]\<rparr> \<and>
   elems \<lparr>dtype = Float32, shape = [1, 2], elems = [3/4, 9/4]\<rparr>
     \<noteq> elems \<lparr>dtype = UInt8, shape = [1, 2], elems = [0, 2]\<rparr>"
  unfolding registered_sample fst_conv
  using take_slice_sample_in take_slice_sample_out slice_sample [of pw_powr gf_none]
    volume_sample [of pw_powr gf_none]
  by simp

section \<open>Persistence of the settings\<close>

subsection \<open>Lines of a file\<close>

lemma file_lines_no_newline:
  assumes "\<forall>x \<in> set d. \<not> is_newline x" and "is_newline c"
  shows "file_lines (d @ c # y) = d # file_lines y"
proof (cases d)
  case Nil
  then show ?thesis using assms(2) by simp
next
  case (Cons x xs)
  have t: "takeWhile (\<lambda>x. \<not> is_newline x) (d @ c # y) = d"
    using assms by (simp add: takeWhile_append2 [of d])
  have dr: "dropWhile (\<lambda>x. \<not> is_newline x) (d @ c # y) = c # y"
    using assms by (simp add: dropWhile_append2 [of d])
  show ?thesis
    using t dr by (simp add: Cons)
qed

lemma file_lines_append:
  assumes "is_newline c"
  shows "file_lines (a @ c # y) = file_lines (a @ [c]) @ file_lines y"
proof (induction a rule: file_lines.induct)
  case 1
  show ?case using assms by simp
next
  case (2 x xs)
  show ?case
  proof (cases "\<forall>z \<in> set (x # xs). \<not> is_newline z")
    case True
    show ?thesis
      using file_lines_no_newline [OF True assms, of y] file_lines_no_newline [OF True assms, of "[]"]
      by simp
  next
    case False
    then obtain n r where dr: "dropWhile (\<lambda>x. \<not> is_newline x) (x # xs) = n # r"
      by (metis dropWhile_eq_Nil_conv list.exhaust)
    obtain z where z: "z \<in> set (x # xs)" and nz: "\<not> \<not> is_newline z"
      using False by blast
    have t: "takeWhile (\<lambda>x. \<not> is_newline x) ((x # xs) @ w) = takeWhile (\<lambda>x. \<not> is_newline x) (x # xs)" for w
      using takeWhile_append1 [where P = "\<lambda>x. \<not> is_newline x" and x = z and xs = "x # xs" and ys = w] z nz
      by blast
    have d: "dropWhile (\<lambda>x. \<not> is_newline x) ((x # xs) @ w) = n # (r @ w)" for w
      using dropWhile_append1 [where P = "\<lambda>x. \<not> is_newline x" and x = z and xs = "x # xs" and ys = w] z nz dr
      by simp
    have "file_lines ((x # xs) @ w) = takeWhile (\<lambda>x. \<not> is_newline x) (x # xs) # file_lines (r @ w)" for w
      using t [of w] d [of w] by (simp del: takeWhile.simps dropWhile.simps) 
    then show ?thesis
      using "2.IH" [OF dr] by simp
  qed
qed

lemma line_of_file:
  assumes "\<forall>x \<in> set d. \<not> is_newline x" and "is_newline c" and "is_newline c'"
  shows "d \<in> set (file_lines (pre @ c # d @ c' # post))"
proof -
  have "file_lines (pre @ c # d @ c' # post) = file_lines (pre @ [c]) @ file_lines (d @ c' # post)"
    by (rule file_lines_append [OF assms(2)])
  then show ?thesis
    using file_lines_no_newline [OF assms(1,3), of post] by simp
qed

subsection \<open>The loop of the import\<close>

lemma load_lines_raises:
  assumes "l \<in> set ls" and "\<And>s. \<exists>e. load_line s l = Inl e"
  shows "\<exists>e. load_lines s ls = Inl e"
  using assms(1)
proof (induction ls arbitrary: s)
  case Nil
  then show ?case by simp
next
  case (Cons a ls)
  show ?case
  proof (cases "load_line s a")
    case (Inl e)
    then show ?thesis by simp
  next
    case (Inr s')
    have "a \<noteq> l"
      using Inr assms(2) [of s] by auto
    then have "l \<in> set ls"
      using Cons.prems by simp
    then show ?thesis
      using Cons.IH [of s'] Inr by simp
  qed
qed

lemma store_float_raises:
  "split_colon_1 line = Some f \<Longrightarrow> py_float (strip f) = NotFloat \<Longrightarrow>
   store_float upd ls line = Inl ValueError"
  by (simp add: store_float_def)

lemma load_line_raises:
  assumes "startswith (strip l) ''Brightness:'' \<or> startswith (strip l) ''Contrast:'' \<or>
           startswith (strip l) ''Gamma:'' \<or> startswith (strip l) ''Sharpness:''"
    and "split_colon_1 (strip l) = Some f" and "py_float (strip f) = NotFloat"
  shows "load_line ls l = Inl ValueError"
  using assms(1) store_float_raises [OF assms(2,3)]
  by (auto simp add: load_line_def Let_def)

subsection \<open>The exported file\<close>

lemma description_line_facts:
  "list_all (\<lambda>x. \<not> is_newline x) ''  Brightness:  Shifts all pixel values (-100 to +100)''"
  "strip ''  Brightness:  Shifts all pixel values (-100 to +100)''
     = ''Brightness:  Shifts all pixel values (-100 to +100)''"
  "startswith ''Brightness:  Shifts all pixel values (-100 to +100)'' ''Brightness:''"
  "split_colon_1 ''Brightness:  Shifts all pixel values (-100 to +100)''
     = Some ''  Shifts all pixel values (-100 to +100)''"
  "py_float (strip ''  Shifts all pixel values (-100 to +100)'') = NotFloat"
  by code_simp+

lemma description_line_raises:
  "load_line ls ''  Brightness:  Shifts all pixel values (-100 to +100)'' = Inl ValueError"
  by (rule load_line_raises [where f = "''  Shifts all pixel values (-100 to +100)''"])
     (simp_all only: description_line_facts simp_thms)

lemma description_writes_split:
  "\<exists>d1 d2. concat description_writes =
     d1 @ CHR 0x0A # ''  Brightness:  Shifts all pixel values (-100 to +100)'' @ CHR 0x0A # d2"
proof -
  have "concat description_writes =
     (replicate 40 (CHR ''-'') @ newline @ ''Parameter Descriptions'' @ newline @ replicate 40 (CHR ''-''))
     @ CHR 0x0A # ''  Brightness:  Shifts all pixel values (-100 to +100)'' @ CHR 0x0A #
     concat (drop 4 description_writes)"
    unfolding description_writes_def newline_def by simp
  then show ?thesis by blast
qed

lemma exported_text_has_description_line:
  "''  Brightness:  Shifts all pixel values (-100 to +100)''
     \<in> set (file_lines (concat (export_writes now st volume_info)))"
proof -
  obtain d1 d2 where d: "concat description_writes =
     d1 @ CHR 0x0A # ''  Brightness:  Shifts all pixel values (-100 to +100)'' @ CHR 0x0A # d2"
    using description_writes_split by blast
  have "concat (export_writes now st volume_info) =
      (concat (header_writes now @ volume_info_writes volume_info @ parameter_writes st) @ d1)
      @ CHR 0x0A # ''  Brightness:  Shifts all pixel values (-100 to +100)'' @ CHR 0x0A # d2"
    by (simp add: export_writes_def d)
  moreover have "\<forall>x \<in> set ''  Brightness:  Shifts all pixel values (-100 to +100)''. \<not> is_newline x"
    using description_line_facts(1) unfolding list_all_iff .
  moreover have "is_newline (CHR 0x0A)"
    by (simp add: is_newline_def)
  ultimately show ?thesis
    using line_of_file by metis
qed

lemma exported_text_raises:
  "\<exists>e. load_lines ls (file_lines (concat (export_writes now st volume_info))) = Inl e"
  by (rule load_lines_raises [OF exported_text_has_description_line])
     (simp add: description_line_raises)

text \<open>
  C1 on the code. Whatever the settings, the time stamp and the volume information, the
  file that \<open>export_adjustment_settings\<close> writes is one on which
  \<open>load_adjustment_settings\<close> returns \<^verbatim>\<open>None\<close>: the block of parameter descriptions
  has a line that starts with \<^verbatim>\<open>Brightness:\<close> and continues with words.
\<close>

theorem exported_file_never_loads:
  "fst (export_adjustment_settings (fs\<lparr>writable := \<lambda>p. True\<rparr>) now st filepath volume_info) = True \<and>
   load_adjustment_settings
     (snd (export_adjustment_settings (fs\<lparr>writable := \<lambda>p. True\<rparr>) now st filepath volume_info))
     filepath = NotLoaded"
proof -
  obtain e where "load_lines (default_settings, False)
      (file_lines (concat (export_writes now st volume_info))) = Inl e"
    using exported_text_raises by blast
  then show ?thesis
    by (simp add: export_adjustment_settings_def export_body_def load_adjustment_settings_def
        load_body_def)
qed

subsection \<open>Errors of export and import\<close>

text \<open>
  C8. \<open>export_adjustment_settings\<close> answers a failure to open the file with \<^verbatim>\<open>False\<close>
  and leaves the file system as it was. \<open>load_adjustment_settings\<close> returns \<^verbatim>\<open>None\<close>
  when there is no file to read, and when any line of the file starts (after stripping)
  with one of the four numeric prefixes and carries a field that \<^verbatim>\<open>float\<close> rejects,
  wherever that line stands and whatever the other lines set. Settings are returned only
  when the loop has run over every line of the file.
\<close>

theorem persistence_errors_are_values:
  "(\<not> writable fs filepath \<longrightarrow>
      export_body fs now st filepath volume_info = Inl OSError \<and>
      export_adjustment_settings fs now st filepath volume_info = (False, fs)) \<and>
   (files fs filepath = None \<longrightarrow>
      load_body fs filepath = Inl OSError \<and> load_adjustment_settings fs filepath = NotLoaded) \<and>
   (files fs filepath = Some content \<and> l \<in> set (file_lines content) \<and>
    (startswith (strip l) ''Brightness:'' \<or> startswith (strip l) ''Contrast:'' \<or>
     startswith (strip l) ''Gamma:'' \<or> startswith (strip l) ''Sharpness:'') \<and>
    split_colon_1 (strip l) = Some field \<and> py_float (strip field) = NotFloat
    \<longrightarrow> load_adjustment_settings fs filepath = NotLoaded) \<and>
   (load_adjustment_settings fs filepath = Loaded s \<longrightarrow>
      (\<exists>c. files fs filepath = Some c \<and>
         load_lines (default_settings, False) (file_lines c) = Inr (s, False)))"
proof -
  have p1: "export_body fs now st filepath volume_info = Inl OSError \<and>
      export_adjustment_settings fs now st filepath volume_info = (False, fs)"
    if "\<not> writable fs filepath"
    using that by (simp add: export_adjustment_settings_def export_body_def)
  have p2: "load_body fs filepath = Inl OSError \<and> load_adjustment_settings fs filepath = NotLoaded"
    if "files fs filepath = None"
    using that by (simp add: load_adjustment_settings_def load_body_def)
  have p3: "load_adjustment_settings fs filepath = NotLoaded"
    if f: "files fs filepath = Some content" and l: "l \<in> set (file_lines content)"
      and p: "startswith (strip l) ''Brightness:'' \<or> startswith (strip l) ''Contrast:'' \<or>
              startswith (strip l) ''Gamma:'' \<or> startswith (strip l) ''Sharpness:''"
      and c: "split_colon_1 (strip l) = Some field" and n: "py_float (strip field) = NotFloat"
  proof -
    have "\<exists>e. load_line ls l = Inl e" for ls
      using load_line_raises [OF p c n] by blast
    then obtain e where "load_lines (default_settings, False) (file_lines content) = Inl e"
      using load_lines_raises [OF l] by blast
    then show ?thesis
      by (simp add: load_adjustment_settings_def load_body_def f)
  qed
  have p4: "\<exists>c. files fs filepath = Some c \<and>
         load_lines (default_settings, False) (file_lines c) = Inr (s, False)"
    if "load_adjustment_settings fs filepath = Loaded s"
    using that
    by (auto simp add: load_adjustment_settings_def load_body_def
        split: option.splits sum.splits if_splits)
  show ?thesis
    using p1 p2 p3 p4 by blast
qed

lemma loaded_file_facts:
  "load_adjustment_settings
     \<lparr>files = [''a.txt'' \<mapsto> ''Brightness: 12.3'' @ newline], writable = (\<lambda>p. False)\<rparr> ''a.txt''
     = Loaded (default_settings\<lparr>brightness := 123/10\<rparr>)"
  by code_simp

lemma broken_file_facts:
  "file_lines (''Brightness: 12.3'' @ newline @ ''Gamma: abc'' @ newline)
     = [''Brightness: 12.3'', ''Gamma: abc'']"
  "startswith (strip ''Gamma: abc'') ''Gamma:''"
  "split_colon_1 (strip ''Gamma: abc'') = Some '' abc''"
  "py_float (strip '' abc'') = NotFloat"
  "load_line (default_settings, False) ''Brightness: 12.3''
     = Inr (default_settings\<lparr>brightness := 123/10\<rparr>, False)"
  by code_simp+

theorem persistence_errors_are_values_witness:
  "export_adjustment_settings \<lparr>files = Map.empty, writable = (\<lambda>p. False)\<rparr>
      ''2026-01-01 00:00:00'' default_settings ''a.txt'' None
     = (False, \<lparr>files = Map.empty, writable = (\<lambda>p. False)\<rparr>) \<and>
   load_adjustment_settings \<lparr>files = Map.empty, writable = (\<lambda>p. False)\<rparr> ''a.txt'' = NotLoaded \<and>
   load_line (default_settings, False) ''Brightness: 12.3''
     = Inr (default_settings\<lparr>brightness := 123/10\<rparr>, False) \<and>
   load_adjustment_settings
     \<lparr>files = [''a.txt'' \<mapsto> ''Brightness: 12.3'' @ newline @ ''Gamma: abc'' @ newline],
       writable = (\<lambda>p. False)\<rparr> ''a.txt'' = NotLoaded \<and>
   load_adjustment_settings
     \<lparr>files = [''a.txt'' \<mapsto> ''Brightness: 12.3'' @ newline], writable = (\<lambda>p. False)\<rparr> ''a.txt''
     = Loaded (default_settings\<lparr>brightness := 123/10\<rparr>) \<and>
   load_lines (default_settings, False) (file_lines (''Brightness: 12.3'' @ newline))
     = Inr (default_settings\<lparr>brightness := 123/10\<rparr>, False)"
proof -
  note t1 = persistence_errors_are_values [where fs = "\<lparr>files = Map.empty, writable = (\<lambda>p. False)\<rparr>"
      and now = "''2026-01-01 00:00:00''" and st = default_settings and filepath = "''a.txt''"
      and volume_info = None and content = "[]" and l = "[]" and field = "[]" and s = default_settings]
  note t2 = persistence_errors_are_values [where
      fs = "\<lparr>files = [''a.txt'' \<mapsto> ''Brightness: 12.3'' @ newline @ ''Gamma: abc'' @ newline],
             writable = (\<lambda>p. False)\<rparr>"
      and now = "''2026-01-01 00:00:00''" and st = default_settings and filepath = "''a.txt''"
      and volume_info = None
      and content = "''Brightness: 12.3'' @ newline @ ''Gamma: abc'' @ newline"
      and l = "''Gamma: abc''" and field = "'' abc''" and s = default_settings]
  have w: "\<not> writable \<lparr>files = Map.empty, writable = (\<lambda>p. False)\<rparr> ''a.txt''"
    by simp
  have a: "export_adjustment_settings \<lparr>files = Map.empty, writable = (\<lambda>p. False)\<rparr>
      ''2026-01-01 00:00:00'' default_settings ''a.txt'' None
     = (False, \<lparr>files = Map.empty, writable = (\<lambda>p. False)\<rparr>)"
    using t1 [THEN conjunct1, THEN mp, OF w] by (rule conjunct2)
  have n: "files \<lparr>files = Map.empty, writable = (\<lambda>p. False)\<rparr> ''a.txt'' = None"
    by simp
  have b: "load_adjustment_settings \<lparr>files = Map.empty, writable = (\<lambda>p. False)\<rparr> ''a.txt'' = NotLoaded"
    using t1 [THEN conjunct2, THEN conjunct1, THEN mp, OF n] by (rule conjunct2)
  have f: "files \<lparr>files = [''a.txt'' \<mapsto> ''Brightness: 12.3'' @ newline @ ''Gamma: abc'' @ newline],
       writable = (\<lambda>p. False)\<rparr> ''a.txt''
      = Some (''Brightness: 12.3'' @ newline @ ''Gamma: abc'' @ newline)"
    by simp
  have l: "''Gamma: abc'' \<in> set (file_lines (''Brightness: 12.3'' @ newline @ ''Gamma: abc'' @ newline))"
    unfolding broken_file_facts(1) by simp
  have c: "load_adjustment_settings
     \<lparr>files = [''a.txt'' \<mapsto> ''Brightness: 12.3'' @ newline @ ''Gamma: abc'' @ newline],
       writable = (\<lambda>p. False)\<rparr> ''a.txt'' = NotLoaded"
    by (rule t2 [THEN conjunct2, THEN conjunct2, THEN conjunct1, THEN mp])
       (intro conjI disjI2 disjI1 f l broken_file_facts(2,3,4))
  have ld: "load_adjustment_settings
     \<lparr>files = [''a.txt'' \<mapsto> ''Brightness: 12.3'' @ newline], writable = (\<lambda>p. False)\<rparr> ''a.txt''
     = Loaded (default_settings\<lparr>brightness := 123/10\<rparr>)"
    by (rule loaded_file_facts)
  have "\<exists>c. files \<lparr>files = [''a.txt'' \<mapsto> ''Brightness: 12.3'' @ newline],
                     writable = (\<lambda>p. False)\<rparr> ''a.txt'' = Some c \<and>
         load_lines (default_settings, False) (file_lines c)
           = Inr (default_settings\<lparr>brightness := 123/10\<rparr>, False)"
    by (rule persistence_errors_are_values [THEN conjunct2, THEN conjunct2, THEN conjunct2,
          THEN mp, OF ld])
  then obtain c where c1: "files \<lparr>files = [''a.txt'' \<mapsto> ''Brightness: 12.3'' @ newline],
                     writable = (\<lambda>p. False)\<rparr> ''a.txt'' = Some c"
    and c2: "load_lines (default_settings, False) (file_lines c)
           = Inr (default_settings\<lparr>brightness := 123/10\<rparr>, False)"
    by blast
  have "c = ''Brightness: 12.3'' @ newline"
    using c1 by (simp del: append.simps)
  then have d: "load_lines (default_settings, False) (file_lines (''Brightness: 12.3'' @ newline))
     = Inr (default_settings\<lparr>brightness := 123/10\<rparr>, False)"
    using c2 by (simp only:)
  show ?thesis
    using a b c ld d broken_file_facts(5) by (intro conjI)
qed

end
